theory Spec2Isabelle
  imports Main "HOL-Library.Sublist"
begin

section \<open>The PDF object graph as the extractor sees it\<close>

text \<open>
  The extractor (pdf_form_extractor3.0.py) walks the objects that PyPDF2 hands out.
  PyPDF2 builds an EncodedStreamObject for a stream that carries a /Filter entry and a
  DecodedStreamObject otherwise; both derive from StreamObject, which is a
  DictionaryObject. Names keep their leading slash, as in the source's string literals.
  A dictionary is an association list read through \<open>map_of\<close>.
\<close>

datatype stream_kind = Decoded | Encoded

datatype pdf_obj =
    NullObject
  | BooleanObject bool
  | NumberObject int
  | TextStringObject string
  | NameObject string
  | ArrayObject "pdf_obj list"
  | DictionaryObject "(string \<times> pdf_obj) list"
  | StreamObject stream_kind "(string \<times> pdf_obj) list"
  | IndirectObject nat

text \<open>A Python value here is a PDF object or \<open>None\<close>.\<close>

type_synonym py_val = "pdf_obj option"

datatype exn =
    AttributeError | TypeError | KeyError | RecursionError | FileNotFoundError | PdfReadError

text \<open>
  The name-keyed index: a Python dict from field name to field object. Keys that are
  strings or names compare equal to a Python \<open>str\<close> of the same text, so both are filed
  under the text string.
\<close>

type_synonym fields = "pdf_obj \<Rightarrow> pdf_obj option"

text \<open>
  A reader: the trailer dictionary, the table of indirect objects, and the outcome of
  the library call \<open>reader.get_fields()\<close> on this document (an exception, \<open>None\<close>, or
  a dict), which the extractor only passes on.
\<close>

record reader =
  trailer :: "(string \<times> pdf_obj) list"
  objects :: "(nat \<times> pdf_obj) list"
  get_fields_result :: "exn + fields option"

subsection \<open>Python operations on PDF objects\<close>

text \<open>Truth value of an object in a condition: numbers, strings and containers are
  false when zero or empty, every other object is true.\<close>

fun py_truthy :: "pdf_obj \<Rightarrow> bool" where
  "py_truthy NullObject = True"
| "py_truthy (BooleanObject b) = True"
| "py_truthy (NumberObject n) = (n \<noteq> 0)"
| "py_truthy (TextStringObject s) = (s \<noteq> [])"
| "py_truthy (NameObject s) = (s \<noteq> [])"
| "py_truthy (ArrayObject xs) = (xs \<noteq> [])"
| "py_truthy (DictionaryObject d) = (d \<noteq> [])"
| "py_truthy (StreamObject k d) = (d \<noteq> [])"
| "py_truthy (IndirectObject n) = True"

definition val_truthy :: "py_val \<Rightarrow> bool" where
  "val_truthy v = (case v of None \<Rightarrow> False | Some x \<Rightarrow> py_truthy x)"

text \<open>\<open>x.get(key)\<close>: the inherited \<open>dict.get\<close>, which returns the stored entry as it
  is (an indirect reference stays one); any other receiver has no such attribute.\<close>

fun py_get :: "pdf_obj \<Rightarrow> string \<Rightarrow> exn + py_val" where
  "py_get (DictionaryObject d) k = Inr (map_of d k)"
| "py_get (StreamObject sk d) k = Inr (map_of d k)"
| "py_get x k = Inl AttributeError"

definition val_get :: "py_val \<Rightarrow> string \<Rightarrow> exn + py_val" where
  "val_get v k = (case v of None \<Rightarrow> Inl AttributeError | Some x \<Rightarrow> py_get x k)"

text \<open>\<open>value == "text"\<close>: only a text string or a name can equal a \<open>str\<close>.\<close>

fun py_eq_str :: "py_val \<Rightarrow> string \<Rightarrow> bool" where
  "py_eq_str (Some (TextStringObject s)) k = (s = k)"
| "py_eq_str (Some (NameObject s)) k = (s = k)"
| "py_eq_str v k = False"

text \<open>\<open>ref.get_object()\<close>: a reference is looked up in the object table and the result
  resolved again; an undefined object number gives \<open>None\<close>, and a chain that comes back
  to itself ends in a RecursionError. Every other object returns itself.\<close>

fun deref :: "nat \<Rightarrow> (nat \<times> pdf_obj) list \<Rightarrow> nat \<Rightarrow> exn + py_val" where
  "deref 0 tbl n = Inl RecursionError"
| "deref (Suc fuel) tbl n =
     (case map_of tbl n of
        None \<Rightarrow> Inr None
      | Some (IndirectObject m) \<Rightarrow> deref fuel tbl m
      | Some x \<Rightarrow> Inr (Some x))"

fun get_object :: "reader \<Rightarrow> pdf_obj \<Rightarrow> exn + py_val" where
  "get_object r (IndirectObject n) = deref (Suc (length (objects r))) (objects r) n"
| "get_object r x = Inr (Some x)"

definition val_get_object :: "reader \<Rightarrow> py_val \<Rightarrow> exn + py_val" where
  "val_get_object r v = (case v of None \<Rightarrow> Inl AttributeError | Some x \<Rightarrow> get_object r x)"

text \<open>\<open>"key" in x\<close>: key membership for a dictionary, element membership for an array,
  substring test for a string, TypeError for anything that is not a container.\<close>

fun py_contains :: "pdf_obj \<Rightarrow> string \<Rightarrow> exn + bool" where
  "py_contains (DictionaryObject d) k = Inr (map_of d k \<noteq> None)"
| "py_contains (StreamObject sk d) k = Inr (map_of d k \<noteq> None)"
| "py_contains (ArrayObject xs) k = Inr (list_ex (\<lambda>x. py_eq_str (Some x) k) xs)"
| "py_contains (TextStringObject s) k = Inr (sublist k s)"
| "py_contains (NameObject s) k = Inr (sublist k s)"
| "py_contains x k = Inl TypeError"

definition val_contains :: "py_val \<Rightarrow> string \<Rightarrow> exn + bool" where
  "val_contains v k = (case v of None \<Rightarrow> Inl TypeError | Some x \<Rightarrow> py_contains x k)"

text \<open>\<open>x["key"]\<close>: PyPDF2's dictionary subscript resolves the entry it finds; a missing
  key is a KeyError, and no other object can be subscripted by a string.\<close>

fun py_getitem :: "reader \<Rightarrow> pdf_obj \<Rightarrow> string \<Rightarrow> exn + py_val" where
  "py_getitem r (DictionaryObject d) k =
     (case map_of d k of None \<Rightarrow> Inl KeyError | Some v \<Rightarrow> get_object r v)"
| "py_getitem r (StreamObject sk d) k =
     (case map_of d k of None \<Rightarrow> Inl KeyError | Some v \<Rightarrow> get_object r v)"
| "py_getitem r x k = Inl TypeError"

definition val_getitem :: "reader \<Rightarrow> py_val \<Rightarrow> string \<Rightarrow> exn + py_val" where
  "val_getitem r v k = (case v of None \<Rightarrow> Inl TypeError | Some x \<Rightarrow> py_getitem r x k)"

text \<open>\<open>for item in x\<close>: the elements of an array, the keys of a dictionary (names), the
  characters of a string (each a one-character string), TypeError otherwise.\<close>

fun py_iter :: "pdf_obj \<Rightarrow> exn + pdf_obj list" where
  "py_iter (ArrayObject xs) = Inr xs"
| "py_iter (DictionaryObject d) = Inr (map (\<lambda>kv. NameObject (fst kv)) d)"
| "py_iter (StreamObject sk d) = Inr (map (\<lambda>kv. NameObject (fst kv)) d)"
| "py_iter (TextStringObject s) = Inr (map (\<lambda>c. TextStringObject [c]) s)"
| "py_iter (NameObject s) = Inr (map (\<lambda>c. TextStringObject [c]) s)"
| "py_iter x = Inl TypeError"

definition val_iter :: "py_val \<Rightarrow> exn + pdf_obj list" where
  "val_iter v = (case v of None \<Rightarrow> Inl TypeError | Some x \<Rightarrow> py_iter x)"

text \<open>\<open>str(x)\<close>: a text string or a name is its own text; the text of any other object
  is its \<open>repr\<close>, which for a reference contains a memory address, so the \<open>repr\<close> is a
  parameter.\<close>

fun py_str :: "(pdf_obj \<Rightarrow> string) \<Rightarrow> pdf_obj \<Rightarrow> string" where
  "py_str rp (TextStringObject s) = s"
| "py_str rp (NameObject s) = s"
| "py_str rp x = rp x"

text \<open>The key under which a dict files an object: lists and dictionaries cannot be
  hashed.\<close>

fun dict_key :: "pdf_obj \<Rightarrow> exn + pdf_obj" where
  "dict_key (TextStringObject s) = Inr (TextStringObject s)"
| "dict_key (NameObject s) = Inr (TextStringObject s)"
| "dict_key (ArrayObject xs) = Inl TypeError"
| "dict_key (DictionaryObject d) = Inl TypeError"
| "dict_key (StreamObject sk d) = Inl TypeError"
| "dict_key x = Inr x"

section \<open>Field names\<close>

definition DOC_NUM_FIELD :: string where "DOC_NUM_FIELD = ''Doc Num''"
definition CORNER_OF_SECTION_FIELD :: string where "CORNER_OF_SECTION_FIELD = ''Corner of Section''"
definition TOWNSHIP_FIELD :: string where "TOWNSHIP_FIELD = ''Township''"
definition RANGE_FIELD :: string where "RANGE_FIELD = ''Range''"
definition COUNTY_FIELD :: string where "COUNTY_FIELD = ''County''"
definition SURVEY_IMAGE_FIELD :: string where "SURVEY_IMAGE_FIELD = ''Survey Image''"

section \<open>Diagnostics\<close>

text \<open>What the extractor prints, one entry per \<open>print\<close> call, in order.\<close>

datatype msg =
    InfoProcessing string
  | WarnValue string exn
  | WarnOptions string exn
  | WarnImage string exn
  | InfoResults string
  | Plain string
  | ErrorExtraction string exn
  | InfoCycleStart nat
  | ErrorNoDirectory string
  | ErrorNoPdfs string
  | InfoFound nat nat
  | InfoCycleDone nat nat nat
  | WarnCycleFailed nat nat

section \<open>Form tree locator\<close>

text \<open>\<open>root = reader.trailer.get("/Root")\<close> and
  \<open>acro = root.get("/AcroForm") if root else None\<close>, shared by both locators.\<close>

definition get_root :: "reader \<Rightarrow> py_val" where
  "get_root r = map_of (trailer r) ''/Root''"

definition get_acro :: "reader \<Rightarrow> exn + py_val" where
  "get_acro r =
     (case get_root r of
        None \<Rightarrow> Inr None
      | Some root \<Rightarrow> if py_truthy root then py_get root ''/AcroForm'' else Inr None)"

text \<open>The loop of the fallback in \<open>get_fields_dict\<close>: \<open>fields[name] = obj\<close> for every
  entry with a true name.\<close>

fun build_fields :: "reader \<Rightarrow> pdf_obj list \<Rightarrow> fields \<Rightarrow> exn + fields" where
  "build_fields r [] acc = Inr acc"
| "build_fields r (f # fs) acc =
     (case get_object r f of
        Inl e \<Rightarrow> Inl e
      | Inr None \<Rightarrow> Inl AttributeError
      | Inr (Some obj) \<Rightarrow>
          (case py_get obj ''/T'' of
             Inl e \<Rightarrow> Inl e
           | Inr name \<Rightarrow>
               if val_truthy name
               then (case name of
                       None \<Rightarrow> build_fields r fs acc
                     | Some nm \<Rightarrow>
                         (case dict_key nm of
                            Inl e \<Rightarrow> Inl e
                          | Inr k \<Rightarrow> build_fields r fs (acc(k \<mapsto> obj))))
               else build_fields r fs acc))"

definition fields_fallback :: "reader \<Rightarrow> exn + fields" where
  "fields_fallback r =
     (case get_acro r of
        Inl e \<Rightarrow> Inl e
      | Inr acro \<Rightarrow>
          if \<not> val_truthy acro then Inr Map.empty
          else (case val_get_object r acro of
                  Inl e \<Rightarrow> Inl e
                | Inr a \<Rightarrow>
                    (case val_contains a ''/Fields'' of
                       Inl e \<Rightarrow> Inl e
                     | Inr False \<Rightarrow> Inr Map.empty
                     | Inr True \<Rightarrow>
                         (case val_get_object r acro of
                            Inl e \<Rightarrow> Inl e
                          | Inr a2 \<Rightarrow>
                              (case val_getitem r a2 ''/Fields'' of
                                 Inl e \<Rightarrow> Inl e
                               | Inr fl \<Rightarrow>
                                   (case val_iter fl of
                                      Inl e \<Rightarrow> Inl e
                                    | Inr items \<Rightarrow> build_fields r items Map.empty))))))"

definition get_fields_dict :: "reader \<Rightarrow> exn + fields option" where
  "get_fields_dict r =
     (case get_fields_result r of
        Inr res \<Rightarrow> Inr res
      | Inl e \<Rightarrow> (case fields_fallback r of Inl e2 \<Rightarrow> Inl e2 | Inr fs \<Rightarrow> Inr (Some fs)))"

text \<open>The loop of \<open>find_field_obj\<close>: the first entry whose /T equals the name.\<close>

fun find_loop :: "reader \<Rightarrow> string \<Rightarrow> pdf_obj list \<Rightarrow> exn + py_val" where
  "find_loop r field_name [] = Inr None"
| "find_loop r field_name (f # fs) =
     (case get_object r f of
        Inl e \<Rightarrow> Inl e
      | Inr None \<Rightarrow> Inl AttributeError
      | Inr (Some obj) \<Rightarrow>
          (case py_get obj ''/T'' of
             Inl e \<Rightarrow> Inl e
           | Inr t \<Rightarrow> if py_eq_str t field_name then Inr (Some obj)
                      else find_loop r field_name fs))"

definition find_field_obj :: "reader \<Rightarrow> string \<Rightarrow> exn + py_val" where
  "find_field_obj r field_name =
     (case get_acro r of
        Inl e \<Rightarrow> Inl e
      | Inr acro \<Rightarrow>
          if \<not> val_truthy acro then Inr None
          else (case val_get_object r acro of
                  Inl e \<Rightarrow> Inl e
                | Inr a \<Rightarrow>
                    (case val_get a ''/Fields'' of
                       Inl e \<Rightarrow> Inl e
                     | Inr None \<Rightarrow> find_loop r field_name []
                     | Inr (Some fl) \<Rightarrow>
                         (case py_iter fl of
                            Inl e \<Rightarrow> Inl e
                          | Inr items \<Rightarrow> find_loop r field_name items))))"

section \<open>Field value and option reader\<close>

definition get_value_body :: "(pdf_obj \<Rightarrow> string) \<Rightarrow> fields option \<Rightarrow> string \<Rightarrow> exn + string" where
  "get_value_body rp fields_dict field_name =
     (case fields_dict of
        None \<Rightarrow> Inl AttributeError
      | Some fd \<Rightarrow>
          (case fd (TextStringObject field_name) of
             None \<Rightarrow> Inr ''''
           | Some entry \<Rightarrow>
               (case py_get entry ''/V'' of
                  Inl e \<Rightarrow> Inl e
                | Inr None \<Rightarrow> Inr ''''
                | Inr (Some val) \<Rightarrow> Inr (py_str rp val))))"

definition get_value :: "(pdf_obj \<Rightarrow> string) \<Rightarrow> fields option \<Rightarrow> string \<Rightarrow> string \<times> msg list" where
  "get_value rp fields_dict field_name =
     (case get_value_body rp fields_dict field_name of
        Inr s \<Rightarrow> (s, [])
      | Inl e \<Rightarrow> ('''', [WarnValue field_name e]))"

text \<open>One pass of the option loop: a non-empty list gives the text of its first
  element, anything else its own text.\<close>

fun option_text :: "(pdf_obj \<Rightarrow> string) \<Rightarrow> pdf_obj \<Rightarrow> string" where
  "option_text rp (ArrayObject (x # xs)) = py_str rp x"
| "option_text rp item = py_str rp item"

text \<open>The body of the \<open>try\<close> in \<open>get_choice_options\<close>. The list \<open>options\<close> is filled
  only by the loop, whose steps raise nothing, so an exception always leaves it empty.\<close>

definition get_choice_options_body :: "(pdf_obj \<Rightarrow> string) \<Rightarrow> reader \<Rightarrow> string \<Rightarrow> exn + string list" where
  "get_choice_options_body rp r field_name =
     (case find_field_obj r field_name of
        Inl e \<Rightarrow> Inl e
      | Inr obj \<Rightarrow>
          if \<not> val_truthy obj then Inr []
          else (case val_get obj ''/Opt'' of
                  Inl e \<Rightarrow> Inl e
                | Inr opt \<Rightarrow>
                    if \<not> val_truthy opt then Inr []
                    else (case val_iter opt of
                            Inl e \<Rightarrow> Inl e
                          | Inr items \<Rightarrow> Inr (map (option_text rp) items))))"

definition get_choice_options :: "(pdf_obj \<Rightarrow> string) \<Rightarrow> reader \<Rightarrow> string \<Rightarrow> string list \<times> msg list" where
  "get_choice_options rp r field_name =
     (case get_choice_options_body rp r field_name of
        Inr opts \<Rightarrow> (opts, [])
      | Inl e \<Rightarrow> ([], [WarnOptions field_name e]))"

section \<open>Image presence detector\<close>

text \<open>\<open>mk and mk.get("/I") is not None\<close>.\<close>

definition icon_check :: "py_val \<Rightarrow> exn + bool" where
  "icon_check mk =
     (if \<not> val_truthy mk then Inr False
      else (case val_get mk ''/I'' of Inl e \<Rightarrow> Inl e | Inr i \<Rightarrow> Inr (i \<noteq> None)))"

text \<open>The loop over \<open>xo.items()\<close>. Its inner handler swallows whatever resolving one
  entry raises and goes on to the next entry; the second component lists what it
  swallowed, which the source discards.\<close>

fun scan_xobjects :: "reader \<Rightarrow> pdf_obj list \<Rightarrow> bool \<times> exn list" where
  "scan_xobjects r [] = (False, [])"
| "scan_xobjects r (xobj # rest) =
     (case get_object r xobj of
        Inl e \<Rightarrow> (fst (scan_xobjects r rest), e # snd (scan_xobjects r rest))
      | Inr None \<Rightarrow>
          (fst (scan_xobjects r rest), AttributeError # snd (scan_xobjects r rest))
      | Inr (Some xobj_obj) \<Rightarrow>
          (case py_get xobj_obj ''/Subtype'' of
             Inl e \<Rightarrow> (fst (scan_xobjects r rest), e # snd (scan_xobjects r rest))
           | Inr st \<Rightarrow> if py_eq_str st ''/Image'' then (True, [])
                       else scan_xobjects r rest))"

text \<open>\<open>xo and hasattr(xo, "items")\<close>, then the values of \<open>xo.items()\<close>: the entries of
  a dictionary as stored, or the elements of an array (PyPDF2 3 gives arrays an
  \<open>items\<close> that enumerates them).\<close>

fun xobject_values :: "py_val \<Rightarrow> pdf_obj list" where
  "xobject_values (Some (DictionaryObject d)) = map snd d"
| "xobject_values (Some (StreamObject sk d)) = map snd d"
| "xobject_values (Some (ArrayObject xs)) = xs"
| "xobject_values v = []"

text \<open>The scan of one resolved normal appearance: only a DecodedStreamObject is
  looked into.\<close>

definition scan_appearance :: "reader \<Rightarrow> py_val \<Rightarrow> exn + bool \<times> exn list" where
  "scan_appearance r apn_obj =
     (case apn_obj of
        Some (StreamObject Decoded sd) \<Rightarrow>
          (let resources = map_of sd ''/Resources'' in
           if \<not> val_truthy resources then Inr (False, [])
           else (case val_get resources ''/XObject'' of
                   Inl e \<Rightarrow> Inl e
                 | Inr xo \<Rightarrow>
                     (case (case xo of
                              Some (IndirectObject n) \<Rightarrow> get_object r (IndirectObject n)
                            | _ \<Rightarrow> Inr xo) of
                        Inl e \<Rightarrow> Inl e
                      | Inr xo2 \<Rightarrow>
                          if val_truthy xo2 then Inr (scan_xobjects r (xobject_values xo2))
                          else Inr (False, []))))
      | _ \<Rightarrow> Inr (False, []))"

text \<open>The embedded-files look at the end: it can raise, it cannot change the answer.\<close>

definition embedded_files_check :: "reader \<Rightarrow> exn + unit" where
  "embedded_files_check r =
     (case (case get_root r of
              None \<Rightarrow> Inr None
            | Some root \<Rightarrow> if py_truthy root then py_get root ''/Names'' else Inr None) of
        Inl e \<Rightarrow> Inl e
      | Inr names \<Rightarrow>
          if val_truthy names
          then (case val_get names ''/EmbeddedFiles'' of Inl e \<Rightarrow> Inl e | Inr x \<Rightarrow> Inr ())
          else Inr ())"

definition finish_false :: "reader \<Rightarrow> exn list \<Rightarrow> exn + bool \<times> exn list" where
  "finish_false r sw =
     (case embedded_files_check r of Inl e \<Rightarrow> Inl e | Inr u \<Rightarrow> Inr (False, sw))"

text \<open>The appearance step, from \<open>ap = obj.get("/AP")\<close> to the end of the \<open>try\<close>.\<close>

definition appearance_step :: "reader \<Rightarrow> py_val \<Rightarrow> exn + bool \<times> exn list" where
  "appearance_step r obj =
     (case val_get obj ''/AP'' of
        Inl e \<Rightarrow> Inl e
      | Inr ap \<Rightarrow>
          if \<not> val_truthy ap then finish_false r []
          else (case val_contains ap ''/N'' of
                  Inl e \<Rightarrow> Inl e
                | Inr False \<Rightarrow> finish_false r []
                | Inr True \<Rightarrow>
                    (case val_getitem r ap ''/N'' of
                       Inl e \<Rightarrow> Inl e
                     | Inr apn \<Rightarrow>
                         (let (apn_obj, sw0) =
                                (case val_get_object r apn of
                                   Inl e \<Rightarrow> (apn, [e])
                                 | Inr x \<Rightarrow> (x, []))
                          in case scan_appearance r apn_obj of
                               Inl e \<Rightarrow> Inl e
                             | Inr (True, sw) \<Rightarrow> Inr (True, sw0 @ sw)
                             | Inr (False, sw) \<Rightarrow> finish_false r (sw0 @ sw)))))"

text \<open>The body of the outer \<open>try\<close>: the answer, and what the inner handlers swallowed.\<close>

definition detect_body :: "reader \<Rightarrow> string \<Rightarrow> exn + bool \<times> exn list" where
  "detect_body r field_name =
     (case find_field_obj r field_name of
        Inl e \<Rightarrow> Inl e
      | Inr obj \<Rightarrow>
          if \<not> val_truthy obj then Inr (False, [])
          else (case val_get obj ''/FT'' of
                  Inl e \<Rightarrow> Inl e
                | Inr ft \<Rightarrow>
                    if \<not> py_eq_str ft ''/Btn'' then Inr (False, [])
                    else (case val_get obj ''/MK'' of
                            Inl e \<Rightarrow> Inl e
                          | Inr mk \<Rightarrow>
                              (case icon_check mk of
                                 Inl e \<Rightarrow> Inl e
                               | Inr True \<Rightarrow> Inr (True, [])
                               | Inr False \<Rightarrow> appearance_step r obj))))"

definition detect_image_in_button :: "reader \<Rightarrow> string \<Rightarrow> bool \<times> msg list" where
  "detect_image_in_button r field_name =
     (case detect_body r field_name of
        Inr res \<Rightarrow> (fst res, [])
      | Inl e \<Rightarrow> (False, [WarnImage field_name e]))"

section \<open>Extraction session and batch driver\<close>

record extraction_result =
  filename :: string
  doc_num :: string
  corner_of_section :: string
  township :: string
  range_value :: string
  county :: string
  image_present_bool :: bool
  image_present_flag :: string
  township_options :: "string list"
  range_options :: "string list"
  county_options :: "string list"

text \<open>What the session needs from outside: what opening a path gives (no file, an
  exception of the PDF library, or a reader), \<open>os.path.basename\<close>, the \<open>repr\<close> of
  objects, and for the batch driver \<open>os.path.isdir\<close> and the \<open>glob\<close> of \<open>*.pdf\<close>.\<close>

record env =
  files :: "string \<Rightarrow> (exn + reader) option"
  basename :: "string \<Rightarrow> string"
  repr :: "pdf_obj \<Rightarrow> string"
  isdir :: "string \<Rightarrow> bool"
  glob_pdfs :: "string \<Rightarrow> string list"

definition load_reader :: "env \<Rightarrow> string \<Rightarrow> exn + reader" where
  "load_reader ev pdf_path =
     (case files ev pdf_path of None \<Rightarrow> Inl FileNotFoundError | Some res \<Rightarrow> res)"

text \<open>\<open>sep.join(xs)\<close> and \<open>str\<close> of a bool.\<close>

fun py_join :: "string \<Rightarrow> string list \<Rightarrow> string" where
  "py_join sep [] = []"
| "py_join sep [x] = x"
| "py_join sep (x # y # ys) = x @ sep @ py_join sep (y # ys)"

definition bool_str :: "bool \<Rightarrow> string" where
  "bool_str b = (if b then ''True'' else ''False'')"

definition options_text :: "string list \<Rightarrow> string" where
  "options_text opts = (if opts \<noteq> [] then py_join '', '' opts else ''None'')"

definition result_lines :: "extraction_result \<Rightarrow> msg list" where
  "result_lines res =
     [InfoResults (filename res),
      Plain (''Doc Num: '' @ doc_num res),
      Plain (''Corner of Section: '' @ corner_of_section res),
      Plain (''Township (value): '' @ township res),
      Plain (''Range (value): '' @ range_value res),
      Plain (''County (value): '' @ county res),
      Plain (''Image present (bool): '' @ bool_str (image_present_bool res)),
      Plain (''Image present (Y/N): '' @ image_present_flag res),
      Plain (''Township options: '' @ options_text (township_options res)),
      Plain (''Range options: '' @ options_text (range_options res)),
      Plain (''County options: '' @ options_text (county_options res)),
      Plain ''--------------------------------------------------'']"

text \<open>The part of \<open>process_pdf\<close> after the index is built: nothing in it can raise.\<close>

definition extract_fields :: "env \<Rightarrow> string \<Rightarrow> reader \<Rightarrow> fields option \<Rightarrow> extraction_result \<times> msg list" where
  "extract_fields ev pdf_path r fd =
     (let dn = get_value (repr ev) fd DOC_NUM_FIELD;
          cs = get_value (repr ev) fd CORNER_OF_SECTION_FIELD;
          tw = get_value (repr ev) fd TOWNSHIP_FIELD;
          rg = get_value (repr ev) fd RANGE_FIELD;
          co = get_value (repr ev) fd COUNTY_FIELD;
          two = get_choice_options (repr ev) r TOWNSHIP_FIELD;
          rgo = get_choice_options (repr ev) r RANGE_FIELD;
          coo = get_choice_options (repr ev) r COUNTY_FIELD;
          img = detect_image_in_button r SURVEY_IMAGE_FIELD;
          res = \<lparr> filename = basename ev pdf_path,
                  doc_num = fst dn,
                  corner_of_section = fst cs,
                  township = fst tw,
                  range_value = fst rg,
                  county = fst co,
                  image_present_bool = fst img,
                  image_present_flag = (if fst img then ''Y'' else ''N''),
                  township_options = fst two,
                  range_options = fst rgo,
                  county_options = fst coo \<rparr>
      in (res, snd dn @ snd cs @ snd tw @ snd rg @ snd co @ snd two @ snd rgo @ snd coo
               @ snd img @ result_lines res))"

definition process_pdf :: "env \<Rightarrow> string \<Rightarrow> extraction_result option \<times> msg list" where
  "process_pdf ev pdf_path =
     (case load_reader ev pdf_path of
        Inl e \<Rightarrow> (None, [InfoProcessing pdf_path, ErrorExtraction pdf_path e])
      | Inr r \<Rightarrow>
          (case get_fields_dict r of
             Inl e \<Rightarrow> (None, [InfoProcessing pdf_path, ErrorExtraction pdf_path e])
           | Inr fd \<Rightarrow>
               (Some (fst (extract_fields ev pdf_path r fd)),
                InfoProcessing pdf_path # snd (extract_fields ev pdf_path r fd))))"



section \<open>Console output\<close>

text \<open>
  What \<open>print\<close> writes for one diagnostic: the text of the f-string, with the time stamp
  of the moment and, where the source prints \<open>{e}\<close>, the text of the exception; both
  come from outside. Each \<open>print\<close> ends its text with a line break.
\<close>

fun show_nat :: "nat \<Rightarrow> string" where
  "show_nat n =
     (if n < 10 then [char_of (48 + n)]
      else show_nat (n div 10) @ [char_of (48 + n mod 10)])"

definition stamp :: "string \<Rightarrow> string \<Rightarrow> string" where
  "stamp ts level = ''['' @ ts @ ''] '' @ level @ '': ''"

fun render :: "(exn \<Rightarrow> string) \<Rightarrow> string \<Rightarrow> msg \<Rightarrow> string" where
  "render et ts (InfoProcessing p) = stamp ts ''INFO'' @ ''Processing '' @ p"
| "render et ts (WarnValue n e) =
     stamp ts ''WARN'' @ ''Could not read value for '' @ [CHR 0x27] @ n @ [CHR 0x27] @ '': '' @ et e"
| "render et ts (WarnOptions n e) =
     stamp ts ''WARN'' @ ''Could not read options for '' @ [CHR 0x27] @ n @ [CHR 0x27] @ '': '' @ et e"
| "render et ts (WarnImage n e) =
     stamp ts ''WARN'' @ ''Image detection error for '' @ [CHR 0x27] @ n @ [CHR 0x27] @ '': '' @ et e"
| "render et ts (InfoResults f) = stamp ts ''INFO'' @ ''Extraction results for '' @ f @ '':''"
| "render et ts (Plain s) = s"
| "render et ts (ErrorExtraction p e) =
     ''['' @ ts @ ''] ERROR during extraction of '' @ p @ '': '' @ et e"
| "render et ts (InfoCycleStart c) = stamp ts ''INFO'' @ ''Starting cycle '' @ show_nat c"
| "render et ts (ErrorNoDirectory d) = stamp ts ''ERROR'' @ ''Directory not found: '' @ d"
| "render et ts (ErrorNoPdfs d) = stamp ts ''ERROR'' @ ''No PDFs found in '' @ d"
| "render et ts (InfoFound n c) =
     stamp ts ''INFO'' @ ''Found '' @ show_nat n @ '' PDFs in cycle '' @ show_nat c @ ''.''"
| "render et ts (InfoCycleDone c k n) =
     stamp ts ''INFO'' @ ''Cycle '' @ show_nat c @ '' processed '' @ show_nat k @ ''/''
       @ show_nat n @ '' PDFs successfully.''"
| "render et ts (WarnCycleFailed c k) =
     stamp ts ''WARN'' @ ''Cycle '' @ show_nat c @ '' failed to process '' @ show_nat k @ '' PDFs.''"

text \<open>The text on standard output for a sequence of diagnostics, the i-th of them
  printed at time \<open>clock i\<close>.\<close>

fun stdout_from :: "(exn \<Rightarrow> string) \<Rightarrow> (nat \<Rightarrow> string) \<Rightarrow> nat \<Rightarrow> msg list \<Rightarrow> string" where
  "stdout_from et clock i [] = []"
| "stdout_from et clock i (m # ms) =
     render et (clock i) m @ [CHR 0x0A] @ stdout_from et clock (Suc i) ms"

definition stdout_text :: "(exn \<Rightarrow> string) \<Rightarrow> (nat \<Rightarrow> string) \<Rightarrow> msg list \<Rightarrow> string" where
  "stdout_text et clock ms = stdout_from et clock 0 ms"

section \<open>The output parser (pdfextract3.0.py)\<close>

text \<open>
  Python string operations, on strings whose characters are the code points below 256.
  \<open>str.strip()\<close> removes white space at both ends; below 256 the white-space
  characters are 9 to 13, 28 to 32, 133 and 160.
\<close>

definition py_isspace :: "char \<Rightarrow> bool" where
  "py_isspace c =
     ((9 \<le> (of_char c :: nat) \<and> (of_char c :: nat) \<le> 13)
      \<or> (28 \<le> (of_char c :: nat) \<and> (of_char c :: nat) \<le> 32)
      \<or> (of_char c :: nat) = 133 \<or> (of_char c :: nat) = 160)"

definition py_strip :: "string \<Rightarrow> string" where
  "py_strip s = rev (dropWhile py_isspace (rev (dropWhile py_isspace s)))"

text \<open>\<open>s.split(sep)\<close> for a one-character separator: never an empty list.\<close>

fun py_split :: "char \<Rightarrow> string \<Rightarrow> string list" where
  "py_split sep [] = [[]]"
| "py_split sep (c # cs) =
     (if c = sep then [] # py_split sep cs
      else (case py_split sep cs of
              [] \<Rightarrow> [[c]]
            | x # xs \<Rightarrow> (c # x) # xs))"

text \<open>\<open>value.replace(', ', ',')\<close>: occurrences are replaced from the left, without
  overlap.\<close>

fun replace_comma_space :: "string \<Rightarrow> string" where
  "replace_comma_space (a # b # cs) =
     (if a = CHR '','' \<and> b = CHR '' '' then CHR '','' # replace_comma_space cs
      else a # replace_comma_space (b # cs))"
| "replace_comma_space cs = cs"

text \<open>
  \<open>re.search(r'Extraction results for (.+):', line)\<close> and its group 1. The literal
  prefix cannot overlap itself, and the text after a later occurrence is a suffix of
  the text after the first one; so there is a match exactly when the text after the
  first occurrence has a colon behind at least one character, and the greedy group
  runs up to the last colon.
\<close>

fun after_first :: "string \<Rightarrow> string \<Rightarrow> string option" where
  "after_first pat [] = (if pat = [] then Some [] else None)"
| "after_first pat (c # cs) =
     (if prefix pat (c # cs) then Some (drop (length pat) (c # cs))
      else after_first pat cs)"

definition upto_last_colon :: "string \<Rightarrow> string" where
  "upto_last_colon s = rev (tl (dropWhile (\<lambda>c. c \<noteq> CHR '':'') (rev s)))"

definition filename_match :: "string \<Rightarrow> string option" where
  "filename_match line =
     (case after_first ''Extraction results for '' line of
        None \<Rightarrow> None
      | Some rest \<Rightarrow>
          if CHR '':'' \<in> set (tl rest) then Some (upto_last_colon rest) else None)"

text \<open>A parsed record is a dict from column name to a string or a bool.\<close>

datatype pyv = Str string | Boolean bool

type_synonym parsed = "string \<Rightarrow> pyv option"

definition key_map :: "(string \<times> string) list" where
  "key_map =
     [(''Doc Num'', ''doc_num''),
      (''Corner of Section'', ''corner_of_section''),
      (''Township (value)'', ''township''),
      (''Range (value)'', ''range''),
      (''County (value)'', ''county''),
      (''Image present (bool)'', ''image_present_bool''),
      (''Image present (Y/N)'', ''image_present_flag''),
      (''Township options'', ''township_options''),
      (''Range options'', ''range_options''),
      (''County options'', ''county_options'')]"

text \<open>The value stored for a recognised key.\<close>

definition parsed_value :: "string \<Rightarrow> string \<Rightarrow> pyv" where
  "parsed_value mapped_key v =
     (if mapped_key = ''image_present_bool'' then Boolean (v = ''True'')
      else if sublist ''options'' mapped_key
           then (if v = ''None'' \<or> v = [] then Str [] else Str (replace_comma_space v))
      else Str v)"

text \<open>
  One pass of the loop over the lines, on the pair of \<open>results\<close> and
  \<open>current_result\<close>. A current record always holds its filename, so it is true
  whenever it is not \<open>None\<close>. \<open>line.split(':', 1)\<close> of a line with a colon is the text
  before the first colon and the text after it.
\<close>

definition parse_step :: "parsed list \<times> parsed option \<Rightarrow> string \<Rightarrow> parsed list \<times> parsed option" where
  "parse_step st line =
     (if sublist ''Extraction results for'' line
      then (case filename_match line of
              None \<Rightarrow> st
            | Some f \<Rightarrow>
                ((case snd st of None \<Rightarrow> fst st | Some cur \<Rightarrow> fst st @ [cur]),
                 Some [''filename'' \<mapsto> Str f]))
      else if snd st \<noteq> None \<and> CHR '':'' \<in> set line
      then (case snd st of
              None \<Rightarrow> st
            | Some cur \<Rightarrow>
                (let key = py_strip (takeWhile (\<lambda>c. c \<noteq> CHR '':'') line);
                     val = py_strip (tl (dropWhile (\<lambda>c. c \<noteq> CHR '':'') line))
                 in case map_of key_map key of
                      None \<Rightarrow> st
                    | Some mapped_key \<Rightarrow>
                        (fst st, Some (cur(mapped_key \<mapsto> parsed_value mapped_key val)))))
      else if sublist ''---'' line \<and> snd st \<noteq> None
      then (case snd st of None \<Rightarrow> st | Some cur \<Rightarrow> (fst st @ [cur], None))
      else st)"

definition parse_batch_output :: "string \<Rightarrow> parsed list" where
  "parse_batch_output output =
     (let st = foldl parse_step ([], None) (py_split (CHR 0x0A) (py_strip output))
      in case snd st of None \<Rightarrow> fst st | Some cur \<Rightarrow> fst st @ [cur])"

text \<open>The round trip of the specification ends with a split of the stored string at
  the commas: \<open>py_split (CHR '','')\<close>.\<close>

section \<open>Statements about the console output and its parser\<close>

text \<open>A string that stays on one line when printed: no line feed and no carriage
  return.\<close>

definition no_line_break :: "string \<Rightarrow> bool" where
  "no_line_break s = (CHR 0x0A \<notin> set s \<and> CHR 0x0D \<notin> set s)"

text \<open>Every string of a record that \<open>process_pdf\<close> prints stays on one line.\<close>

definition single_line_values :: "extraction_result \<Rightarrow> bool" where
  "single_line_values res =
     (no_line_break (filename res) \<and> no_line_break (doc_num res)
      \<and> no_line_break (corner_of_section res) \<and> no_line_break (township res)
      \<and> no_line_break (range_value res) \<and> no_line_break (county res)
      \<and> list_all no_line_break (township_options res)
      \<and> list_all no_line_break (range_options res)
      \<and> list_all no_line_break (county_options res))"

text \<open>A parsed record whose two image columns agree: the flag is "Y" exactly when the
  bool is true and "N" exactly when it is false.\<close>

definition flags_agree :: "parsed \<Rightarrow> bool" where
  "flags_agree rec =
     (((rec ''image_present_flag'' = Some (Str ''Y'')) = (rec ''image_present_bool'' = Some (Boolean True)))
      \<and> ((rec ''image_present_flag'' = Some (Str ''N'')) = (rec ''image_present_bool'' = Some (Boolean False))))"

text \<open>The same for every record the parser holds, finished or current.\<close>

definition all_agree :: "parsed list \<times> parsed option \<Rightarrow> bool" where
  "all_agree st = (list_all flags_agree (fst st)
                   \<and> (case snd st of None \<Rightarrow> True | Some cur \<Rightarrow> flags_agree cur))"

text \<open>The lines of the block that \<open>process_pdf\<close> prints for a record.\<close>

definition block_lines :: "(exn \<Rightarrow> string) \<Rightarrow> string \<Rightarrow> extraction_result \<Rightarrow> string list" where
  "block_lines et ts res =
     [render et ts (InfoResults (filename res)),
      ''Doc Num: '' @ doc_num res,
      ''Corner of Section: '' @ corner_of_section res,
      ''Township (value): '' @ township res,
      ''Range (value): '' @ range_value res,
      ''County (value): '' @ county res,
      ''Image present (bool): '' @ bool_str (image_present_bool res),
      ''Image present (Y/N): '' @ image_present_flag res,
      ''Township options: '' @ options_text (township_options res),
      ''Range options: '' @ options_text (range_options res),
      ''County options: '' @ options_text (county_options res),
      ''--------------------------------------------------'']"

text \<open>What the parser stores for an option column whose stripped text is \<open>v\<close>.\<close>

definition stored_options :: "string \<Rightarrow> pyv" where
  "stored_options v = (if v = ''None'' \<or> v = [] then Str [] else Str (replace_comma_space v))"

text \<open>A string with no white space at either end, a list of strings without commas,
  and an option list that the round trip can give back: not empty, no commas, its
  joined text not the word None and without white space at either end.\<close>

definition no_outer_space :: "string \<Rightarrow> bool" where
  "no_outer_space s = (s = [] \<or> (\<not> py_isspace (hd s) \<and> \<not> py_isspace (last s)))"

definition comma_free :: "string list \<Rightarrow> bool" where
  "comma_free opts = list_all (\<lambda>x. CHR '','' \<notin> set x) opts"

definition survives_parsing :: "string list \<Rightarrow> bool" where
  "survives_parsing opts =
     (opts \<noteq> [] \<and> comma_free opts \<and> options_text opts \<noteq> ''None''
      \<and> no_outer_space (options_text opts))"

text \<open>A record whose printed block the parser reads as one record, whenever it is
  printed: every string on one line, no time stamp with the letter E, a file name, and
  no option text that holds the words the parser takes for the start of a record.\<close>

definition printable_block :: "(nat \<Rightarrow> string) \<Rightarrow> extraction_result \<Rightarrow> bool" where
  "printable_block clock res =
     (single_line_values res \<and> (\<forall>i. CHR ''E'' \<notin> set (clock i))
      \<and> filename res \<noteq> []
      \<and> \<not> sublist ''Extraction results for'' (options_text (township_options res))
      \<and> \<not> sublist ''Extraction results for'' (options_text (range_options res))
      \<and> \<not> sublist ''Extraction results for'' (options_text (county_options res)))"

text \<open>The lines that a sequence of diagnostics is printed as, the diagnostics that
  \<open>process_pdf\<close> prints before the result block (each begins with a time stamp in
  brackets), and the one string each of them carries.\<close>

fun rendered_from :: "(exn \<Rightarrow> string) \<Rightarrow> (nat \<Rightarrow> string) \<Rightarrow> nat \<Rightarrow> msg list \<Rightarrow> string list" where
  "rendered_from et clock i [] = []"
| "rendered_from et clock i (m # ms) = render et (clock i) m # rendered_from et clock (Suc i) ms"

fun session_msg :: "msg \<Rightarrow> bool" where
  "session_msg (InfoProcessing p) = True"
| "session_msg (WarnValue n e) = True"
| "session_msg (WarnOptions n e) = True"
| "session_msg (WarnImage n e) = True"
| "session_msg m = False"

fun msg_subject :: "msg \<Rightarrow> string" where
  "msg_subject (InfoProcessing p) = p"
| "msg_subject (WarnValue n e) = n"
| "msg_subject (WarnOptions n e) = n"
| "msg_subject (WarnImage n e) = n"
| "msg_subject m = []"

text \<open>A line that begins with the bracket of a time stamp.\<close>

definition stamped_line :: "string \<Rightarrow> bool" where
  "stamped_line l = (\<exists>body. l = CHR ''['' # body)"

text \<open>A run whose path, time stamps and exception texts all stay on one line.\<close>

definition quiet_log :: "(exn \<Rightarrow> string) \<Rightarrow> (nat \<Rightarrow> string) \<Rightarrow> string \<Rightarrow> bool" where
  "quiet_log et clock p =
     (no_line_break p \<and> (\<forall>i. no_line_break (clock i)) \<and> (\<forall>e. no_line_break (et e)))"

section \<open>The appearance scan in the words of the specification\<close>

text \<open>
  The specification's reading of step 3, to compare \<open>detect_image_in_button\<close> with:
  the field's normal-appearance entry resolves to a content stream; that stream's
  resource dictionary has an XObject sub-dictionary (resolved if it is a reference);
  some entry of it resolves to a dictionary whose subtype is Image.
\<close>

definition spec_normal_appearance_stream :: "reader \<Rightarrow> pdf_obj \<Rightarrow> (string \<times> pdf_obj) list option" where
  "spec_normal_appearance_stream r field =
     (case py_get field ''/AP'' of
        Inr (Some ap) \<Rightarrow>
          (case py_getitem r ap ''/N'' of
             Inr (Some (StreamObject sk sd)) \<Rightarrow> Some sd
           | _ \<Rightarrow> None)
      | _ \<Rightarrow> None)"

definition spec_xobject_subdict :: "reader \<Rightarrow> (string \<times> pdf_obj) list \<Rightarrow> (string \<times> pdf_obj) list option" where
  "spec_xobject_subdict r sd =
     (case map_of sd ''/Resources'' of
        Some res \<Rightarrow>
          (case py_get res ''/XObject'' of
             Inr (Some xo) \<Rightarrow>
               (case get_object r xo of
                  Inr (Some (DictionaryObject d)) \<Rightarrow> Some d
                | _ \<Rightarrow> None)
           | _ \<Rightarrow> None)
      | None \<Rightarrow> None)"

definition spec_resolves_to_image :: "reader \<Rightarrow> pdf_obj \<Rightarrow> bool" where
  "spec_resolves_to_image r x =
     (case get_object r x of
        Inr (Some xd) \<Rightarrow>
          (case py_get xd ''/Subtype'' of Inr st \<Rightarrow> py_eq_str st ''/Image'' | Inl e \<Rightarrow> False)
      | _ \<Rightarrow> False)"

definition spec_image_xobject_reachable :: "reader \<Rightarrow> pdf_obj \<Rightarrow> bool" where
  "spec_image_xobject_reachable r field =
     (case spec_normal_appearance_stream r field of
        None \<Rightarrow> False
      | Some sd \<Rightarrow>
          (case spec_xobject_subdict r sd of
             None \<Rightarrow> False
           | Some d \<Rightarrow> list_ex (\<lambda>kv. spec_resolves_to_image r (snd kv)) d))"

section \<open>Example documents\<close>

text \<open>A document whose catalog and interactive form are stored directly, with the given
  top-level fields and object table; the library's \<open>get_fields()\<close> raised, so the index
  is the one the fallback builds.\<close>

definition form_reader :: "pdf_obj list \<Rightarrow> (nat \<times> pdf_obj) list \<Rightarrow> reader" where
  "form_reader fs tbl =
     \<lparr> trailer = [(''/Root'', DictionaryObject
                    [(''/Type'', NameObject ''/Catalog''),
                     (''/AcroForm'', DictionaryObject [(''/Fields'', ArrayObject fs)])])],
       objects = tbl,
       get_fields_result = Inl PdfReadError \<rparr>"

text \<open>A button named "Survey Image" with an icon in /MK and no appearance.\<close>

definition icon_field :: pdf_obj where
  "icon_field = DictionaryObject
     [(''/T'', TextStringObject ''Survey Image''), (''/FT'', NameObject ''/Btn''),
      (''/MK'', DictionaryObject [(''/I'', IndirectObject 9)])]"

text \<open>Two top-level choice fields that share the name "Township".\<close>

definition township_a :: pdf_obj where
  "township_a = DictionaryObject
     [(''/T'', TextStringObject ''Township''), (''/FT'', NameObject ''/Ch''),
      (''/V'', TextStringObject ''1N''),
      (''/Opt'', ArrayObject [TextStringObject ''1N'', TextStringObject ''2N''])]"

definition township_b :: pdf_obj where
  "township_b = DictionaryObject
     [(''/T'', TextStringObject ''Township''), (''/FT'', NameObject ''/Ch''),
      (''/V'', TextStringObject ''7S''),
      (''/Opt'', ArrayObject [TextStringObject ''7S'', TextStringObject ''8S''])]"

text \<open>An image XObject, and a button whose normal appearance is a form XObject with
  two resource XObjects: /Gone points at an undefined object, /Im0 at the image. The
  appearance stream is given with either stream class.\<close>

definition image_xobject :: pdf_obj where
  "image_xobject = StreamObject Encoded
     [(''/Type'', NameObject ''/XObject''), (''/Subtype'', NameObject ''/Image''),
      (''/Width'', NumberObject 64), (''/Height'', NumberObject 64),
      (''/Filter'', NameObject ''/DCTDecode'')]"

definition appearance_dict :: "(string \<times> pdf_obj) list" where
  "appearance_dict =
     [(''/Type'', NameObject ''/XObject''), (''/Subtype'', NameObject ''/Form''),
      (''/Resources'', DictionaryObject
         [(''/XObject'', DictionaryObject
            [(''/Gone'', IndirectObject 7), (''/Im0'', IndirectObject 6)])])]"

definition appearance_field :: pdf_obj where
  "appearance_field = DictionaryObject
     [(''/T'', TextStringObject ''Survey Image''), (''/FT'', NameObject ''/Btn''),
      (''/AP'', DictionaryObject [(''/N'', IndirectObject 5)])]"

definition appearance_reader :: "stream_kind \<Rightarrow> reader" where
  "appearance_reader sk =
     form_reader [appearance_field] [(5, StreamObject sk appearance_dict), (6, image_xobject)]"


text \<open>An index with a valued text field, a choice field without /V and no "County";
  a reader for which the library returned that index; an environment with one good and
  one unreadable file.\<close>

definition doc_num_entry :: pdf_obj where
  "doc_num_entry = DictionaryObject
     [(''/T'', TextStringObject ''Doc Num''), (''/FT'', NameObject ''/Tx''),
      (''/V'', TextStringObject ''2024-0117'')]"

definition range_entry :: pdf_obj where
  "range_entry = DictionaryObject
     [(''/T'', TextStringObject ''Range''), (''/FT'', NameObject ''/Ch'')]"

definition sample_index :: fields where
  "sample_index = [TextStringObject ''Doc Num'' \<mapsto> doc_num_entry,
                   TextStringObject ''Range'' \<mapsto> range_entry,
                   TextStringObject ''Township'' \<mapsto> township_a]"

definition sample_reader :: reader where
  "sample_reader = \<lparr> trailer = [], objects = [], get_fields_result = Inr (Some sample_index) \<rparr>"

definition sample_env :: env where
  "sample_env = \<lparr> files = [''a.pdf'' \<mapsto> Inr sample_reader, ''bad.pdf'' \<mapsto> Inl PdfReadError],
                   basename = (\<lambda>p. p), repr = (\<lambda>x. ''?''),
                   isdir = (\<lambda>d. d = ''in''),
                   glob_pdfs = (\<lambda>d. [''bad.pdf'', ''a.pdf'']) \<rparr>"

text \<open>A choice field whose options mix [export, display] pairs and bare strings.\<close>

definition county_field :: pdf_obj where
  "county_field = DictionaryObject
     [(''/T'', TextStringObject ''County''), (''/FT'', NameObject ''/Ch''),
      (''/Opt'', ArrayObject
         [ArrayObject [TextStringObject ''LE'', TextStringObject ''Leon''],
          TextStringObject ''Wakulla'',
          ArrayObject [TextStringObject ''GA'', TextStringObject ''Gadsden'']])]"

text \<open>A document without an interactive form, for which the library's
  \<open>get_fields()\<close> returned \<open>None\<close>.\<close>

definition no_form_reader :: reader where
  "no_form_reader =
     \<lparr> trailer = [(''/Root'', DictionaryObject [(''/Type'', NameObject ''/Catalog'')])],
       objects = [],
       get_fields_result = Inr None \<rparr>"

text \<open>A choice field one of whose options carries a line feed followed by the text of
  an image line, a document holding it, and the record of the sample document above
  with a clock and exception texts for printing.\<close>

definition injecting_field :: pdf_obj where
  "injecting_field = DictionaryObject
     [(''/T'', TextStringObject ''Township''), (''/FT'', NameObject ''/Ch''),
      (''/V'', TextStringObject ''1N''),
      (''/Opt'', ArrayObject
         [TextStringObject (''1N'' @ [CHR 0x0A] @ ''Image present (Y/N): Y'')])]"

definition injecting_env :: env where
  "injecting_env = \<lparr> files = [''inj.pdf'' \<mapsto> Inr (form_reader [injecting_field] [])],
                      basename = (\<lambda>p. p), repr = (\<lambda>x. ''?''),
                      isdir = (\<lambda>d. True), glob_pdfs = (\<lambda>d. [''inj.pdf'']) \<rparr>"

definition sample_clock :: "nat \<Rightarrow> string" where
  "sample_clock i = ''2025-03-01 09:30:00''"

definition sample_exn_text :: "exn \<Rightarrow> string" where
  "sample_exn_text e = ''error''"

definition sample_result :: extraction_result where
  "sample_result = \<lparr> filename = ''a.pdf'', doc_num = ''2024-0117'', corner_of_section = '''',
      township = ''1N'', range_value = '''', county = '''',
      image_present_bool = False, image_present_flag = ''N'',
      township_options = [], range_options = [], county_options = [] \<rparr>"

text \<open>A document with the two-option "Township" field and the three-option "County"
  field, and the record \<open>process_pdf\<close> returns for it.\<close>

definition options_env :: env where
  "options_env = \<lparr> files = [''o.pdf'' \<mapsto> Inr (form_reader [township_a, county_field] [])],
                     basename = (\<lambda>p. p), repr = (\<lambda>x. ''?''),
                     isdir = (\<lambda>d. True), glob_pdfs = (\<lambda>d. [''o.pdf'']) \<rparr>"

definition options_result :: extraction_result where
  "options_result = \<lparr> filename = ''o.pdf'', doc_num = '''', corner_of_section = '''',
      township = ''1N'', range_value = '''', county = '''',
      image_present_bool = False, image_present_flag = ''N'',
      township_options = [''1N'', ''2N''], range_options = [],
      county_options = [''LE'', ''Wakulla'', ''GA''] \<rparr>"

text \<open>The document of \<open>form_reader\<close> as PDF writers store it: the trailer holds /Root
  as a reference to the catalog, which is object 1. The library's answer to
  \<open>get_fields()\<close> is left open.\<close>

definition written_reader :: "pdf_obj list \<Rightarrow> (nat \<times> pdf_obj) list \<Rightarrow> exn + fields option \<Rightarrow> reader" where
  "written_reader fs tbl gf =
     \<lparr> trailer = [(''/Size'', NumberObject 10), (''/Root'', IndirectObject 1)],
       objects = (1, DictionaryObject
                    [(''/Type'', NameObject ''/Catalog''),
                     (''/AcroForm'', DictionaryObject [(''/Fields'', ArrayObject fs)])]) # tbl,
       get_fields_result = gf \<rparr>"

text \<open>The button "Survey Image" with its /MK stored as a reference to object 4, which
  is the dictionary holding the icon.\<close>

definition linked_icon_field :: pdf_obj where
  "linked_icon_field = DictionaryObject
     [(''/T'', TextStringObject ''Survey Image''), (''/FT'', NameObject ''/Btn''),
      (''/MK'', IndirectObject 4)]"

definition icon_table :: "(nat \<times> pdf_obj) list" where
  "icon_table = [(4, DictionaryObject [(''/I'', IndirectObject 9)])]"

text \<open>The "County" field with its /Opt stored as a reference to object 4, and with
  /Opt stored directly but two of its entries as references to strings.\<close>

definition linked_options_field :: pdf_obj where
  "linked_options_field = DictionaryObject
     [(''/T'', TextStringObject ''County''), (''/FT'', NameObject ''/Ch''),
      (''/Opt'', IndirectObject 4)]"

definition options_table :: "(nat \<times> pdf_obj) list" where
  "options_table =
     [(4, ArrayObject [TextStringObject ''Leon'', TextStringObject ''Wakulla''])]"

definition linked_entries_field :: pdf_obj where
  "linked_entries_field = DictionaryObject
     [(''/T'', TextStringObject ''County''), (''/FT'', NameObject ''/Ch''),
      (''/Opt'', ArrayObject [IndirectObject 4, TextStringObject ''Wakulla'', IndirectObject 5])]"

definition entries_table :: "(nat \<times> pdf_obj) list" where
  "entries_table = [(4, TextStringObject ''Leon''), (5, TextStringObject ''Gadsden'')]"





section \<open>Lines, keys and steps of the parser\<close>

lemma py_split_nonempty: "py_split sep s \<noteq> []"
  by (induction s) (auto split: list.splits)

lemma py_split_line: "sep \<notin> set a \<Longrightarrow> py_split sep (a @ sep # rest) = a # py_split sep rest"
  by (induction a) (auto split: list.splits)

lemma py_split_last: "sep \<notin> set a \<Longrightarrow> py_split sep a = [a]"
  by (induction a) (auto split: list.splits)

lemma py_strip_core:
  "\<not> py_isspace c \<Longrightarrow> \<not> py_isspace d \<Longrightarrow> py_strip (c # s @ [d, CHR 0x0A]) = c # s @ [d]"
proof -
  have nl: "py_isspace (CHR 0x0A)" by (simp add: py_isspace_def)
  assume "\<not> py_isspace c" "\<not> py_isspace d"
  then show ?thesis using nl by (simp add: py_strip_def)
qed

lemma isspace_examples:
  "\<not> py_isspace (CHR ''['')" "\<not> py_isspace (CHR ''-'')" "py_isspace (CHR '' '')" "py_isspace (CHR 0x0A)"
  by (simp_all add: py_isspace_def)

lemma no_newline_join:
  "list_all no_line_break opts \<Longrightarrow> CHR 0x0A \<notin> set (py_join '', '' opts)"
  by (induction "'', ''" opts rule: py_join.induct) (auto simp: no_line_break_def)

lemma no_newline_options_text:
  "list_all no_line_break opts \<Longrightarrow> CHR 0x0A \<notin> set (options_text opts)"
  using no_newline_join by (auto simp: options_text_def)

lemma parse_step_current:
  assumes "\<not> sublist ''Extraction results for'' line"
  shows "parse_step (rs, Some cur) line =
     (if CHR '':'' \<in> set line
      then (case map_of key_map (py_strip (takeWhile (\<lambda>c. c \<noteq> CHR '':'') line)) of
              None \<Rightarrow> (rs, Some cur)
            | Some k \<Rightarrow> (rs, Some (cur(k \<mapsto>
                parsed_value k (py_strip (tl (dropWhile (\<lambda>c. c \<noteq> CHR '':'') line)))))))
      else if sublist ''---'' line then (rs @ [cur], None) else (rs, Some cur))"
  using assms by (simp add: parse_step_def Let_def split: option.splits)

lemma parse_step_idle:
  "\<not> sublist ''Extraction results for'' line \<Longrightarrow> parse_step (rs, None) line = (rs, None)"
  by (simp add: parse_step_def)

lemma value_line_keys:
  "map_of key_map (py_strip (takeWhile (\<lambda>c. c \<noteq> CHR '':'') (''Doc Num: '' @ v))) = Some ''doc_num''"
  "map_of key_map (py_strip (takeWhile (\<lambda>c. c \<noteq> CHR '':'') (''Corner of Section: '' @ v))) = Some ''corner_of_section''"
  "map_of key_map (py_strip (takeWhile (\<lambda>c. c \<noteq> CHR '':'') (''Township (value): '' @ v))) = Some ''township''"
  "map_of key_map (py_strip (takeWhile (\<lambda>c. c \<noteq> CHR '':'') (''Range (value): '' @ v))) = Some ''range''"
  "map_of key_map (py_strip (takeWhile (\<lambda>c. c \<noteq> CHR '':'') (''County (value): '' @ v))) = Some ''county''"
  "map_of key_map (py_strip (takeWhile (\<lambda>c. c \<noteq> CHR '':'') (''Township options: '' @ v))) = Some ''township_options''"
  "map_of key_map (py_strip (takeWhile (\<lambda>c. c \<noteq> CHR '':'') (''Range options: '' @ v))) = Some ''range_options''"
  "map_of key_map (py_strip (takeWhile (\<lambda>c. c \<noteq> CHR '':'') (''County options: '' @ v))) = Some ''county_options''"
  "map_of key_map (py_strip (takeWhile (\<lambda>c. c \<noteq> CHR '':'') ''--------------------------------------------------'')) = None"
  by (simp_all add: py_strip_def py_isspace_def key_map_def)

lemma header_has_marker:
  "sublist ''Extraction results for'' (render et ts (InfoResults f))"
proof -
  have "render et ts (InfoResults f)
        = (stamp ts ''INFO'') @ ''Extraction results for'' @ ('' '' @ f @ '':'')"
    by simp
  then show ?thesis by (simp only: sublist_appendI)
qed

lemma stdout_block:
  "stdout_text et clock (result_lines res)
   = CHR ''['' # (clock 0 @ ''] INFO: Extraction results for '' @ filename res @ '':'' @ [CHR 0x0A]
       @ ''Doc Num: '' @ doc_num res @ [CHR 0x0A]
       @ ''Corner of Section: '' @ corner_of_section res @ [CHR 0x0A]
       @ ''Township (value): '' @ township res @ [CHR 0x0A]
       @ ''Range (value): '' @ range_value res @ [CHR 0x0A]
       @ ''County (value): '' @ county res @ [CHR 0x0A]
       @ ''Image present (bool): '' @ bool_str (image_present_bool res) @ [CHR 0x0A]
       @ ''Image present (Y/N): '' @ image_present_flag res @ [CHR 0x0A]
       @ ''Township options: '' @ options_text (township_options res) @ [CHR 0x0A]
       @ ''Range options: '' @ options_text (range_options res) @ [CHR 0x0A]
       @ ''County options: '' @ options_text (county_options res) @ [CHR 0x0A]
       @ ''-------------------------------------------------'') @ [CHR ''-'', CHR 0x0A]"
  by (simp add: stdout_text_def result_lines_def stamp_def)

lemma split_block:
  assumes "CHR 0x0A \<notin> set ts" "CHR 0x0A \<notin> set (filename res)" "CHR 0x0A \<notin> set (doc_num res)"
    "CHR 0x0A \<notin> set (corner_of_section res)" "CHR 0x0A \<notin> set (township res)"
    "CHR 0x0A \<notin> set (range_value res)" "CHR 0x0A \<notin> set (county res)"
    "CHR 0x0A \<notin> set (image_present_flag res)"
    "CHR 0x0A \<notin> set (options_text (township_options res))"
    "CHR 0x0A \<notin> set (options_text (range_options res))"
    "CHR 0x0A \<notin> set (options_text (county_options res))"
  shows "py_split (CHR 0x0A)
     (CHR ''['' # (ts @ ''] INFO: Extraction results for '' @ filename res @ '':'' @ [CHR 0x0A]
       @ ''Doc Num: '' @ doc_num res @ [CHR 0x0A]
       @ ''Corner of Section: '' @ corner_of_section res @ [CHR 0x0A]
       @ ''Township (value): '' @ township res @ [CHR 0x0A]
       @ ''Range (value): '' @ range_value res @ [CHR 0x0A]
       @ ''County (value): '' @ county res @ [CHR 0x0A]
       @ ''Image present (bool): '' @ bool_str (image_present_bool res) @ [CHR 0x0A]
       @ ''Image present (Y/N): '' @ image_present_flag res @ [CHR 0x0A]
       @ ''Township options: '' @ options_text (township_options res) @ [CHR 0x0A]
       @ ''Range options: '' @ options_text (range_options res) @ [CHR 0x0A]
       @ ''County options: '' @ options_text (county_options res) @ [CHR 0x0A]
       @ ''-------------------------------------------------'') @ [CHR ''-''])
   = block_lines et ts res"
proof -
  have l0: "CHR 0x0A \<notin> set (render et ts (InfoResults (filename res)))"
    using assms(1,2) by (simp add: stamp_def)
  have l1: "CHR 0x0A \<notin> set (''Doc Num: '' @ doc_num res)" using assms by simp
  have l2: "CHR 0x0A \<notin> set (''Corner of Section: '' @ corner_of_section res)" using assms by simp
  have l3: "CHR 0x0A \<notin> set (''Township (value): '' @ township res)" using assms by simp
  have l4: "CHR 0x0A \<notin> set (''Range (value): '' @ range_value res)" using assms by simp
  have l5: "CHR 0x0A \<notin> set (''County (value): '' @ county res)" using assms by simp
  have l6: "CHR 0x0A \<notin> set (''Image present (bool): '' @ bool_str (image_present_bool res))"
    by (simp add: bool_str_def)
  have l7: "CHR 0x0A \<notin> set (''Image present (Y/N): '' @ image_present_flag res)" using assms by simp
  have l8: "CHR 0x0A \<notin> set (''Township options: '' @ options_text (township_options res))" using assms by simp
  have l9: "CHR 0x0A \<notin> set (''Range options: '' @ options_text (range_options res))" using assms by simp
  have l10: "CHR 0x0A \<notin> set (''County options: '' @ options_text (county_options res))" using assms by simp
  have l11: "CHR 0x0A \<notin> set ''--------------------------------------------------''" by simp
  have shape: "CHR ''['' # (ts @ ''] INFO: Extraction results for '' @ filename res @ '':'' @ [CHR 0x0A]
       @ ''Doc Num: '' @ doc_num res @ [CHR 0x0A]
       @ ''Corner of Section: '' @ corner_of_section res @ [CHR 0x0A]
       @ ''Township (value): '' @ township res @ [CHR 0x0A]
       @ ''Range (value): '' @ range_value res @ [CHR 0x0A]
       @ ''County (value): '' @ county res @ [CHR 0x0A]
       @ ''Image present (bool): '' @ bool_str (image_present_bool res) @ [CHR 0x0A]
       @ ''Image present (Y/N): '' @ image_present_flag res @ [CHR 0x0A]
       @ ''Township options: '' @ options_text (township_options res) @ [CHR 0x0A]
       @ ''Range options: '' @ options_text (range_options res) @ [CHR 0x0A]
       @ ''County options: '' @ options_text (county_options res) @ [CHR 0x0A]
       @ ''-------------------------------------------------'') @ [CHR ''-'']
    = render et ts (InfoResults (filename res)) @ CHR 0x0A #
      (''Doc Num: '' @ doc_num res) @ CHR 0x0A #
      (''Corner of Section: '' @ corner_of_section res) @ CHR 0x0A #
      (''Township (value): '' @ township res) @ CHR 0x0A #
      (''Range (value): '' @ range_value res) @ CHR 0x0A #
      (''County (value): '' @ county res) @ CHR 0x0A #
      (''Image present (bool): '' @ bool_str (image_present_bool res)) @ CHR 0x0A #
      (''Image present (Y/N): '' @ image_present_flag res) @ CHR 0x0A #
      (''Township options: '' @ options_text (township_options res)) @ CHR 0x0A #
      (''Range options: '' @ options_text (range_options res)) @ CHR 0x0A #
      (''County options: '' @ options_text (county_options res)) @ CHR 0x0A #
      ''--------------------------------------------------''"
    by (simp add: stamp_def)
  show ?thesis
    unfolding shape block_lines_def
    by (simp only: py_split_line [OF l0] py_split_line [OF l1] py_split_line [OF l2]
        py_split_line [OF l3] py_split_line [OF l4] py_split_line [OF l5] py_split_line [OF l6]
        py_split_line [OF l7] py_split_line [OF l8] py_split_line [OF l9] py_split_line [OF l10]
        py_split_last [OF l11])
qed

lemma process_pdf_flag:
  "fst (process_pdf ev p) = Some res
     \<Longrightarrow> image_present_flag res = (if image_present_bool res then ''Y'' else ''N'')"
  by (auto simp: process_pdf_def extract_fields_def Let_def split: sum.splits)

lemma printed_block_lines:
  assumes f: "image_present_flag res = (if image_present_bool res then ''Y'' else ''N'')"
    and s: "single_line_values res" and t: "no_line_break (clock 0)"
  shows "py_split (CHR 0x0A) (py_strip (stdout_text et clock (result_lines res)))
               = block_lines et (clock 0) res"
proof -
  have nl: "CHR 0x0A \<notin> set (clock 0)" "CHR 0x0A \<notin> set (filename res)"
    "CHR 0x0A \<notin> set (doc_num res)" "CHR 0x0A \<notin> set (corner_of_section res)"
    "CHR 0x0A \<notin> set (township res)" "CHR 0x0A \<notin> set (range_value res)"
    "CHR 0x0A \<notin> set (county res)"
    using s t by (simp_all add: single_line_values_def no_line_break_def)
  have nf: "CHR 0x0A \<notin> set (image_present_flag res)" using f by simp
  have no: "CHR 0x0A \<notin> set (options_text (township_options res))"
    "CHR 0x0A \<notin> set (options_text (range_options res))"
    "CHR 0x0A \<notin> set (options_text (county_options res))"
    using s by (simp_all add: single_line_values_def no_newline_options_text)
  show ?thesis
    unfolding stdout_block
    by (simp only: py_strip_core [OF isspace_examples(1) isspace_examples(2)]
        split_block [OF nl nf no])
qed

lemma sample_process: "fst (process_pdf sample_env ''a.pdf'') = Some sample_result"
  by code_simp

lemma stdout_from_append:
  "stdout_from et clock i (ms @ ms') = stdout_from et clock i ms @ stdout_from et clock (i + length ms) ms'"
  by (induction ms arbitrary: i) auto

lemma stdout_from_shift:
  "stdout_from et clock (k + i) ms = stdout_from et (\<lambda>j. clock (k + j)) i ms"
proof (induction ms arbitrary: i)
  case Nil
  then show ?case by simp
next
  case (Cons m ms)
  show ?case using Cons [of "Suc i"] by simp
qed

lemma split_rendered:
  "list_all (\<lambda>l. CHR 0x0A \<notin> set l) (rendered_from et clock i ms)
     \<Longrightarrow> py_split (CHR 0x0A) (stdout_from et clock i ms @ rest)
         = rendered_from et clock i ms @ py_split (CHR 0x0A) rest"
  by (induction ms arbitrary: i) (auto simp: py_split_line)

lemma session_line:
  assumes "session_msg m"
  shows "\<exists>body. render et ts m = CHR ''['' # body"
  using assms by (cases m) (auto simp: stamp_def)

lemma session_line_single:
  assumes "session_msg m" "CHR 0x0A \<notin> set ts" "CHR 0x0A \<notin> set (msg_subject m)"
    "\<forall>e. CHR 0x0A \<notin> set (et e)"
  shows "CHR 0x0A \<notin> set (render et ts m)"
  using assms by (cases m) (auto simp: stamp_def)

lemma py_strip_keeps_head:
  "\<not> py_isspace c \<Longrightarrow> \<exists>y. py_strip (c # s) = c # y"
proof -
  assume c: "\<not> py_isspace c"
  have "dropWhile py_isspace (rev s @ [c]) \<noteq> []"
    using c by (simp add: dropWhile_append)
  moreover have "last (dropWhile py_isspace (rev s @ [c])) = c"
    using c by (simp add: dropWhile_append)
  ultimately have "hd (rev (dropWhile py_isspace (rev s @ [c]))) = c"
    by (simp add: hd_rev)
  then show ?thesis
    using c \<open>dropWhile py_isspace (rev s @ [c]) \<noteq> []\<close>
    by (cases "rev (dropWhile py_isspace (rev s @ [c]))") (auto simp: py_strip_def)
qed

lemma bracket_key: "map_of key_map (CHR ''['' # y) = None"
  by (simp add: key_map_def)

lemma stamped_line_key:
  "map_of key_map (py_strip (takeWhile (\<lambda>c. c \<noteq> CHR '':'') (CHR ''['' # body))) = None"
proof -
  obtain y where "py_strip (CHR ''['' # takeWhile (\<lambda>c. c \<noteq> CHR '':'') body) = CHR ''['' # y"
    using py_strip_keeps_head [OF isspace_examples(1)] by blast
  then show ?thesis by (simp add: bracket_key)
qed

lemma warn_value_msgs:
  "list_all (\<lambda>m. session_msg m \<and> msg_subject m = n) (snd (get_value rp fd n))"
  by (simp add: get_value_def split: sum.splits)

lemma warn_options_msgs:
  "list_all (\<lambda>m. session_msg m \<and> msg_subject m = n) (snd (get_choice_options rp r n))"
  by (simp add: get_choice_options_def split: sum.splits)

lemma warn_image_msgs:
  "list_all (\<lambda>m. session_msg m \<and> msg_subject m = n) (snd (detect_image_in_button r n))"
  by (simp add: detect_image_in_button_def split: sum.splits)

lemma field_names_single_line:
  "CHR 0x0A \<notin> set DOC_NUM_FIELD" "CHR 0x0A \<notin> set CORNER_OF_SECTION_FIELD"
  "CHR 0x0A \<notin> set TOWNSHIP_FIELD" "CHR 0x0A \<notin> set RANGE_FIELD"
  "CHR 0x0A \<notin> set COUNTY_FIELD" "CHR 0x0A \<notin> set SURVEY_IMAGE_FIELD"
  by (simp_all add: DOC_NUM_FIELD_def CORNER_OF_SECTION_FIELD_def TOWNSHIP_FIELD_def
      RANGE_FIELD_def COUNTY_FIELD_def SURVEY_IMAGE_FIELD_def)

lemma weaken_warn:
  "CHR 0x0A \<notin> set n \<Longrightarrow> list_all (\<lambda>m. session_msg m \<and> msg_subject m = n) ms
     \<Longrightarrow> list_all (\<lambda>m. session_msg m \<and> CHR 0x0A \<notin> set (msg_subject m)) ms"
  by (induction ms) auto

lemma session_log:
  assumes "fst (process_pdf ev p) = Some res"
  shows "\<exists>W. snd (process_pdf ev p) = (InfoProcessing p # W) @ result_lines res
            \<and> list_all (\<lambda>m. session_msg m \<and> CHR 0x0A \<notin> set (msg_subject m)) W"
proof -
  obtain r fd where l: "load_reader ev p = Inr r" and g: "get_fields_dict r = Inr fd"
    using assms by (auto simp: process_pdf_def split: sum.splits)
  let ?W = "snd (get_value (repr ev) fd DOC_NUM_FIELD)
          @ snd (get_value (repr ev) fd CORNER_OF_SECTION_FIELD)
          @ snd (get_value (repr ev) fd TOWNSHIP_FIELD)
          @ snd (get_value (repr ev) fd RANGE_FIELD)
          @ snd (get_value (repr ev) fd COUNTY_FIELD)
          @ snd (get_choice_options (repr ev) r TOWNSHIP_FIELD)
          @ snd (get_choice_options (repr ev) r RANGE_FIELD)
          @ snd (get_choice_options (repr ev) r COUNTY_FIELD)
          @ snd (detect_image_in_button r SURVEY_IMAGE_FIELD)"
  have res: "res = fst (extract_fields ev p r fd)"
    using assms l g by (simp add: process_pdf_def)
  have "snd (extract_fields ev p r fd) = ?W @ result_lines (fst (extract_fields ev p r fd))"
    by (simp add: extract_fields_def Let_def)
  then have 1: "snd (process_pdf ev p) = (InfoProcessing p # ?W) @ result_lines res"
    using l g res by (simp add: process_pdf_def)
  have 2: "list_all (\<lambda>m. session_msg m \<and> CHR 0x0A \<notin> set (msg_subject m)) ?W"
    using weaken_warn [OF field_names_single_line(1) warn_value_msgs [of DOC_NUM_FIELD "repr ev" fd]]
      weaken_warn [OF field_names_single_line(2) warn_value_msgs [of CORNER_OF_SECTION_FIELD "repr ev" fd]]
      weaken_warn [OF field_names_single_line(3) warn_value_msgs [of TOWNSHIP_FIELD "repr ev" fd]]
      weaken_warn [OF field_names_single_line(4) warn_value_msgs [of RANGE_FIELD "repr ev" fd]]
      weaken_warn [OF field_names_single_line(5) warn_value_msgs [of COUNTY_FIELD "repr ev" fd]]
      weaken_warn [OF field_names_single_line(3) warn_options_msgs [of TOWNSHIP_FIELD "repr ev" r]]
      weaken_warn [OF field_names_single_line(4) warn_options_msgs [of RANGE_FIELD "repr ev" r]]
      weaken_warn [OF field_names_single_line(5) warn_options_msgs [of COUNTY_FIELD "repr ev" r]]
      weaken_warn [OF field_names_single_line(6) warn_image_msgs [of SURVEY_IMAGE_FIELD r]]
    by simp
  show ?thesis using 1 2 by blast
qed

lemma rendered_session_lines:
  assumes "list_all (\<lambda>m. session_msg m \<and> CHR 0x0A \<notin> set (msg_subject m)) ms"
    and "\<forall>i. CHR 0x0A \<notin> set (clock i)" and "\<forall>e. CHR 0x0A \<notin> set (et e)"
  shows "list_all (\<lambda>l. CHR 0x0A \<notin> set l) (rendered_from et clock i ms)
       \<and> list_all stamped_line (rendered_from et clock i ms)"
  using assms
proof (induction ms arbitrary: i)
  case Nil
  then show ?case by simp
next
  case (Cons m ms)
  have a: "CHR 0x0A \<notin> set (render et (clock i) m)"
    using Cons.prems by (intro session_line_single) simp_all
  have b: "stamped_line (render et (clock i) m)"
    using Cons.prems session_line [of m et "clock i"] by (simp add: stamped_line_def)
  show ?case using a b Cons by simp
qed

lemma stdout_from_stamped:
  "stdout_from et clock i (InfoProcessing p # ms)
     = CHR ''['' # tl (stdout_from et clock i (InfoProcessing p # ms))"
  by (simp add: stamp_def)

lemma console_lines:
  assumes pr: "fst (process_pdf ev p) = Some res"
    and s: "single_line_values res" and q: "quiet_log et clock p"
  shows "\<exists>k pre. py_split (CHR 0x0A) (py_strip (stdout_text et clock (snd (process_pdf ev p))))
                  = pre @ block_lines et (clock k) res
               \<and> list_all stamped_line pre"
proof -
  have f: "image_present_flag res = (if image_present_bool res then ''Y'' else ''N'')"
    using pr by (rule process_pdf_flag)
  obtain W where lg: "snd (process_pdf ev p) = (InfoProcessing p # W) @ result_lines res"
    and w: "list_all (\<lambda>m. session_msg m \<and> CHR 0x0A \<notin> set (msg_subject m)) W"
    using session_log [OF pr] by blast
  have qc: "\<forall>i. CHR 0x0A \<notin> set (clock i)" and qe: "\<forall>e. CHR 0x0A \<notin> set (et e)"
    and qp: "CHR 0x0A \<notin> set p"
    using q by (simp_all add: quiet_log_def no_line_break_def)
  let ?k = "Suc (length W)"
  let ?ck = "\<lambda>j. clock (?k + j)"
  define P where "P = stdout_from et clock 0 (InfoProcessing p # W)"
  define B where "B = stdout_text et ?ck (result_lines res)"
  let ?pre = "rendered_from et clock 0 (InfoProcessing p # W)"
  have pw: "list_all (\<lambda>m. session_msg m \<and> CHR 0x0A \<notin> set (msg_subject m)) (InfoProcessing p # W)"
    using w qp by simp
  have pre: "list_all (\<lambda>l. CHR 0x0A \<notin> set l) ?pre" "list_all stamped_line ?pre"
    using rendered_session_lines [OF pw qc qe, of 0] by simp_all
  have tk: "no_line_break (?ck 0)" using q by (simp add: quiet_log_def)
  have hd_P: "P = CHR ''['' # tl P"
    unfolding P_def by (rule stdout_from_stamped)
  have "stdout_text et clock (snd (process_pdf ev p))
        = P @ stdout_from et clock (0 + ?k) (result_lines res)"
    unfolding lg stdout_text_def P_def by (subst stdout_from_append) simp
  also have "stdout_from et clock (0 + ?k) (result_lines res) = B"
    using stdout_from_shift [of et clock ?k 0 "result_lines res"] by (simp add: stdout_text_def B_def)
  finally have whole: "stdout_text et clock (snd (process_pdf ev p)) = P @ B" .
  obtain M where blk: "B = CHR ''['' # M @ [CHR ''-'', CHR 0x0A]"
    unfolding B_def using stdout_block [of et ?ck res] by blast
  have strip_blk: "py_strip B = CHR ''['' # M @ [CHR ''-'']"
    unfolding blk by (rule py_strip_core [OF isspace_examples(1) isspace_examples(2)])
  have "P @ B = CHR ''['' # (tl P @ CHR ''['' # M) @ [CHR ''-'', CHR 0x0A]"
    unfolding blk by (subst hd_P) simp
  then have "py_strip (P @ B) = CHR ''['' # (tl P @ CHR ''['' # M) @ [CHR ''-'']"
    by (simp only: py_strip_core [OF isspace_examples(1) isspace_examples(2)])
  also have "\<dots> = P @ py_strip B"
    unfolding strip_blk by (subst (2) hd_P) simp
  finally have strip: "py_strip (stdout_text et clock (snd (process_pdf ev p))) = P @ py_strip B"
    by (simp add: whole)
  have "py_split (CHR 0x0A) (py_strip (stdout_text et clock (snd (process_pdf ev p))))
        = ?pre @ py_split (CHR 0x0A) (py_strip B)"
    unfolding strip P_def using pre(1) by (rule split_rendered)
  also have "py_split (CHR 0x0A) (py_strip B) = block_lines et (?ck 0) res"
    unfolding B_def using f s tk by (rule printed_block_lines)
  finally have "py_split (CHR 0x0A) (py_strip (stdout_text et clock (snd (process_pdf ev p))))
        = ?pre @ block_lines et (clock (?k + 0)) res" .
  then show ?thesis using pre(2)
    by (intro exI [of _ "?k + 0"] exI [of _ ?pre] conjI) simp_all
qed

lemma sample_quiet:
  "quiet_log sample_exn_text sample_clock ''a.pdf''" "quiet_log sample_exn_text sample_clock ''o.pdf''"
  by (simp_all add: quiet_log_def sample_exn_text_def sample_clock_def no_line_break_def)

section \<open>Properties\<close>

lemma find_behind_reference:
  "get_root r = Some (IndirectObject k) \<Longrightarrow> find_field_obj r n = Inl AttributeError"
  by (simp add: find_field_obj_def get_acro_def)

lemma get_root_written: "get_root (written_reader fs tbl gf) = Some (IndirectObject 1)"
  by (simp add: get_root_def written_reader_def)

lemma find_linked_icon_field:
  "find_field_obj (form_reader [linked_icon_field] icon_table) ''Survey Image''
   = Inr (Some linked_icon_field)"
  by (simp add: find_field_obj_def get_acro_def get_root_def form_reader_def val_truthy_def
      val_get_object_def val_get_def linked_icon_field_def)

lemma find_icon_field:
  "find_field_obj (form_reader [icon_field] []) ''Survey Image'' = Inr (Some icon_field)"
  by (simp add: find_field_obj_def get_acro_def get_root_def form_reader_def val_truthy_def
      val_get_object_def val_get_def icon_field_def)

text \<open>
  C2. A document stored the way PDF writers store it, with /Root in the trailer as a
  reference to the catalog, whose button "Survey Image" has /FT /Btn and an /MK
  dictionary with an /I entry: \<open>find_field_obj\<close> calls \<open>get\<close> on the unresolved
  reference and raises, so \<open>detect_image_in_button\<close> answers false with a warning.
  The same field in a document whose catalog is stored directly gives true. With the
  catalog direct and /MK stored as a reference to the dictionary holding /I, the
  answer is again false with a warning.
\<close>

theorem icon_entry_behind_reference:
  "get_root (written_reader [icon_field] [] gf) = Some (IndirectObject 1)
   \<and> get_object (written_reader [icon_field] [] gf) (IndirectObject 1)
       = Inr (Some (DictionaryObject
                    [(''/Type'', NameObject ''/Catalog''),
                     (''/AcroForm'', DictionaryObject [(''/Fields'', ArrayObject [icon_field])])]))
   \<and> py_get icon_field ''/FT'' = Inr (Some (NameObject ''/Btn''))
   \<and> py_get icon_field ''/MK'' = Inr (Some (DictionaryObject [(''/I'', IndirectObject 9)]))
   \<and> find_field_obj (written_reader [icon_field] [] gf) SURVEY_IMAGE_FIELD = Inl AttributeError
   \<and> detect_image_in_button (written_reader [icon_field] [] gf) SURVEY_IMAGE_FIELD
       = (False, [WarnImage SURVEY_IMAGE_FIELD AttributeError])
   \<and> detect_image_in_button (form_reader [icon_field] []) SURVEY_IMAGE_FIELD = (True, [])
   \<and> get_object (form_reader [linked_icon_field] icon_table) (IndirectObject 4)
       = Inr (Some (DictionaryObject [(''/I'', IndirectObject 9)]))
   \<and> detect_image_in_button (form_reader [linked_icon_field] icon_table) SURVEY_IMAGE_FIELD
       = (False, [WarnImage SURVEY_IMAGE_FIELD AttributeError])"
proof -
  let ?w = "written_reader [icon_field] [] gf"
  have 1: "get_root ?w = Some (IndirectObject 1)" by (rule get_root_written)
  have 2: "get_object ?w (IndirectObject 1)
       = Inr (Some (DictionaryObject
                    [(''/Type'', NameObject ''/Catalog''),
                     (''/AcroForm'', DictionaryObject [(''/Fields'', ArrayObject [icon_field])])]))"
    by (simp add: written_reader_def)
  have 3: "py_get icon_field ''/FT'' = Inr (Some (NameObject ''/Btn''))"
    by (simp add: icon_field_def)
  have 4: "py_get icon_field ''/MK'' = Inr (Some (DictionaryObject [(''/I'', IndirectObject 9)]))"
    by (simp add: icon_field_def)
  have 5: "find_field_obj ?w SURVEY_IMAGE_FIELD = Inl AttributeError"
    using 1 by (rule find_behind_reference)
  have 6: "detect_image_in_button ?w SURVEY_IMAGE_FIELD
       = (False, [WarnImage SURVEY_IMAGE_FIELD AttributeError])"
    using 5 by (simp add: detect_image_in_button_def detect_body_def)
  have 7: "detect_image_in_button (form_reader [icon_field] []) SURVEY_IMAGE_FIELD = (True, [])"
    using find_icon_field
    by (simp add: detect_image_in_button_def detect_body_def SURVEY_IMAGE_FIELD_def
        val_truthy_def val_get_def icon_check_def icon_field_def)
  have 8: "get_object (form_reader [linked_icon_field] icon_table) (IndirectObject 4)
       = Inr (Some (DictionaryObject [(''/I'', IndirectObject 9)]))"
    by (simp add: form_reader_def icon_table_def)
  have 9: "detect_image_in_button (form_reader [linked_icon_field] icon_table) SURVEY_IMAGE_FIELD
       = (False, [WarnImage SURVEY_IMAGE_FIELD AttributeError])"
    using find_linked_icon_field
    by (simp add: detect_image_in_button_def detect_body_def SURVEY_IMAGE_FIELD_def
        val_truthy_def val_get_def icon_check_def linked_icon_field_def)
  show ?thesis using 1 2 3 4 5 6 7 8 9 by blast
qed

lemma fallback_dup:
  "fields_fallback (form_reader [township_a, township_b] [])
   = Inr [TextStringObject ''Township'' \<mapsto> township_b]"
  by (simp add: fields_fallback_def get_acro_def get_root_def form_reader_def val_truthy_def
      val_get_object_def val_contains_def val_getitem_def val_iter_def township_a_def township_b_def)

text \<open>
  C9. Two top-level fields named "Township": the index built by the fallback of
  \<open>get_fields_dict\<close> keeps the second, so \<open>get_value\<close> reads the second field's
  value, while \<open>find_field_obj\<close> returns the first, so \<open>get_choice_options\<close> (and
  the image detector, which uses the same locator) reads the first field.
\<close>

theorem duplicate_name_first_and_last:
  "get_fields_dict (form_reader [township_a, township_b] [])
     = Inr (Some [TextStringObject ''Township'' \<mapsto> township_b])
   \<and> get_value rp (Some [TextStringObject ''Township'' \<mapsto> township_b]) TOWNSHIP_FIELD = (''7S'', [])
   \<and> find_field_obj (form_reader [township_a, township_b] []) TOWNSHIP_FIELD = Inr (Some township_a)
   \<and> get_choice_options rp (form_reader [township_a, township_b] []) TOWNSHIP_FIELD
       = ([''1N'', ''2N''], [])
   \<and> township_a \<noteq> township_b"
proof -
  have 1: "get_fields_dict (form_reader [township_a, township_b] [])
     = Inr (Some [TextStringObject ''Township'' \<mapsto> township_b])"
    using fallback_dup by (simp add: get_fields_dict_def form_reader_def)
  have 2: "get_value rp (Some [TextStringObject ''Township'' \<mapsto> township_b]) TOWNSHIP_FIELD = (''7S'', [])"
    by (simp add: get_value_def get_value_body_def TOWNSHIP_FIELD_def township_b_def)
  have 3: "find_field_obj (form_reader [township_a, township_b] []) TOWNSHIP_FIELD = Inr (Some township_a)"
    by (simp add: find_field_obj_def get_acro_def get_root_def form_reader_def val_truthy_def
      val_get_object_def val_get_def township_a_def TOWNSHIP_FIELD_def)
  have 4: "get_choice_options rp (form_reader [township_a, township_b] []) TOWNSHIP_FIELD
       = ([''1N'', ''2N''], [])"
    using 3 by (simp add: get_choice_options_def get_choice_options_body_def val_truthy_def
        val_get_def val_iter_def township_a_def)
  have 5: "township_a \<noteq> township_b" by (simp add: township_a_def township_b_def)
  show ?thesis using 1 2 3 4 5 by blast
qed

lemma find_appearance_field:
  "find_field_obj (appearance_reader sk) ''Survey Image'' = Inr (Some appearance_field)"
  by (simp add: find_field_obj_def get_acro_def get_root_def form_reader_def val_truthy_def
      val_get_object_def val_get_def appearance_field_def appearance_reader_def)

lemma objects_appearance_reader:
  "objects (appearance_reader sk) = [(5, StreamObject sk appearance_dict), (6, image_xobject)]"
  by (simp add: appearance_reader_def form_reader_def)

lemma get_root_appearance_reader:
  "get_root (appearance_reader sk) = Some (DictionaryObject
                    [(''/Type'', NameObject ''/Catalog''),
                     (''/AcroForm'', DictionaryObject [(''/Fields'', ArrayObject [appearance_field])])])"
  by (simp add: appearance_reader_def form_reader_def get_root_def)

lemma scan_decoded:
  "scan_appearance (appearance_reader sk) (Some (StreamObject Decoded appearance_dict))
   = Inr (True, [AttributeError])"
  by (simp add: scan_appearance_def appearance_dict_def val_truthy_def val_get_def
      objects_appearance_reader image_xobject_def)

lemma detect_body_decoded:
  "detect_body (appearance_reader Decoded) ''Survey Image'' = Inr (True, [AttributeError])"
proof -
  have "appearance_step (appearance_reader Decoded) (Some appearance_field) = Inr (True, [AttributeError])"
    using scan_decoded [of Decoded]
    by (simp add: appearance_step_def val_get_def val_truthy_def val_contains_def val_getitem_def
        val_get_object_def objects_appearance_reader appearance_field_def)
  then show ?thesis
    using find_appearance_field [of Decoded]
    by (simp add: detect_body_def val_truthy_def val_get_def icon_check_def appearance_field_def)
qed











lemma find_linked_options_field:
  "find_field_obj (form_reader [linked_options_field] tbl) ''County''
   = Inr (Some linked_options_field)"
  by (simp add: find_field_obj_def get_acro_def get_root_def form_reader_def val_truthy_def
      val_get_object_def val_get_def linked_options_field_def)

lemma find_linked_entries_field:
  "find_field_obj (form_reader [linked_entries_field] tbl) ''County''
   = Inr (Some linked_entries_field)"
  by (simp add: find_field_obj_def get_acro_def get_root_def form_reader_def val_truthy_def
      val_get_object_def val_get_def linked_entries_field_def)

lemma find_county_field:
  "find_field_obj (form_reader [township_a, county_field] []) ''County'' = Inr (Some county_field)"
  by (simp add: find_field_obj_def get_acro_def get_root_def form_reader_def val_truthy_def
      val_get_object_def val_get_def township_a_def county_field_def)

text \<open>
  C5. A document stored with /Root as a reference, whose choice field "County" holds
  /Opt [[LE, Leon], Wakulla, [GA, Gadsden]]: \<open>find_field_obj\<close> raises on the
  unresolved reference, so \<open>get_choice_options\<close> returns the empty list with a
  warning. The same field in a document whose catalog is stored directly gives
  LE, Wakulla, GA in that order. With the catalog direct, an /Opt stored as a reference
  to the array gives the empty list with a warning, and option strings stored as
  references come back as the \<open>repr\<close> of the references.
\<close>

theorem options_behind_reference:
  "get_root (written_reader [township_a, county_field] [] gf) = Some (IndirectObject 1)
   \<and> get_object (written_reader [township_a, county_field] [] gf) (IndirectObject 1)
       = Inr (Some (DictionaryObject
                    [(''/Type'', NameObject ''/Catalog''),
                     (''/AcroForm'', DictionaryObject
                         [(''/Fields'', ArrayObject [township_a, county_field])])]))
   \<and> py_get county_field ''/Opt'' = Inr (Some (ArrayObject
         [ArrayObject [TextStringObject ''LE'', TextStringObject ''Leon''],
          TextStringObject ''Wakulla'',
          ArrayObject [TextStringObject ''GA'', TextStringObject ''Gadsden'']]))
   \<and> get_choice_options rp (written_reader [township_a, county_field] [] gf) COUNTY_FIELD
       = ([], [WarnOptions COUNTY_FIELD AttributeError])
   \<and> get_choice_options rp (form_reader [township_a, county_field] []) COUNTY_FIELD
       = ([''LE'', ''Wakulla'', ''GA''], [])
   \<and> get_object (form_reader [linked_options_field] options_table) (IndirectObject 4)
       = Inr (Some (ArrayObject [TextStringObject ''Leon'', TextStringObject ''Wakulla'']))
   \<and> get_choice_options rp (form_reader [linked_options_field] options_table) COUNTY_FIELD
       = ([], [WarnOptions COUNTY_FIELD TypeError])
   \<and> get_choice_options rp (form_reader [linked_entries_field] entries_table) COUNTY_FIELD
       = ([rp (IndirectObject 4), ''Wakulla'', rp (IndirectObject 5)], [])"
proof -
  let ?w = "written_reader [township_a, county_field] [] gf"
  have 1: "get_root ?w = Some (IndirectObject 1)" by (rule get_root_written)
  have 2: "get_object ?w (IndirectObject 1)
       = Inr (Some (DictionaryObject
                    [(''/Type'', NameObject ''/Catalog''),
                     (''/AcroForm'', DictionaryObject
                         [(''/Fields'', ArrayObject [township_a, county_field])])]))"
    by (simp add: written_reader_def)
  have 3: "py_get county_field ''/Opt'' = Inr (Some (ArrayObject
         [ArrayObject [TextStringObject ''LE'', TextStringObject ''Leon''],
          TextStringObject ''Wakulla'',
          ArrayObject [TextStringObject ''GA'', TextStringObject ''Gadsden'']]))"
    by (simp add: county_field_def)
  have "find_field_obj ?w COUNTY_FIELD = Inl AttributeError"
    using 1 by (rule find_behind_reference)
  then have 4: "get_choice_options rp ?w COUNTY_FIELD = ([], [WarnOptions COUNTY_FIELD AttributeError])"
    by (simp add: get_choice_options_def get_choice_options_body_def)
  have 5: "get_choice_options rp (form_reader [township_a, county_field] []) COUNTY_FIELD
       = ([''LE'', ''Wakulla'', ''GA''], [])"
    using find_county_field
    by (simp add: get_choice_options_def get_choice_options_body_def COUNTY_FIELD_def
        val_truthy_def val_get_def val_iter_def county_field_def)
  have 6: "get_object (form_reader [linked_options_field] options_table) (IndirectObject 4)
       = Inr (Some (ArrayObject [TextStringObject ''Leon'', TextStringObject ''Wakulla'']))"
    by (simp add: form_reader_def options_table_def)
  have 7: "get_choice_options rp (form_reader [linked_options_field] options_table) COUNTY_FIELD
       = ([], [WarnOptions COUNTY_FIELD TypeError])"
    using find_linked_options_field [of options_table]
    by (simp add: get_choice_options_def get_choice_options_body_def COUNTY_FIELD_def
        val_truthy_def val_get_def val_iter_def linked_options_field_def)
  have 8: "get_choice_options rp (form_reader [linked_entries_field] entries_table) COUNTY_FIELD
       = ([rp (IndirectObject 4), ''Wakulla'', rp (IndirectObject 5)], [])"
    using find_linked_entries_field [of entries_table]
    by (simp add: get_choice_options_def get_choice_options_body_def COUNTY_FIELD_def
        val_truthy_def val_get_def val_iter_def linked_entries_field_def)
  show ?thesis using 1 2 3 4 5 6 7 8 by blast
qed

lemma detect_body_encoded:
  "detect_body (appearance_reader Encoded) ''Survey Image'' = Inr (False, [])"
proof -
  have "appearance_step (appearance_reader Encoded) (Some appearance_field) = Inr (False, [])"
    by (simp add: appearance_step_def val_get_def val_truthy_def val_contains_def val_getitem_def
        val_get_object_def objects_appearance_reader appearance_field_def scan_appearance_def
        finish_false_def embedded_files_check_def get_root_appearance_reader)
  then show ?thesis
    using find_appearance_field [of Encoded]
    by (simp add: detect_body_def val_truthy_def val_get_def icon_check_def appearance_field_def)
qed

lemma reachable_appearance_reader:
  "spec_image_xobject_reachable (appearance_reader sk) appearance_field"
  by (simp add: spec_image_xobject_reachable_def spec_normal_appearance_stream_def
      spec_xobject_subdict_def spec_resolves_to_image_def appearance_field_def
      objects_appearance_reader appearance_dict_def image_xobject_def)

text \<open>
  C1. A button without /MK whose normal appearance is a stream with a /Filter entry
  (an EncodedStreamObject) and whose resources hold an image XObject: the image is
  reachable in the specification's sense, and \<open>detect_image_in_button\<close> answers false.
  The same document with the appearance stored unfiltered answers true.
\<close>

theorem encoded_appearance_not_scanned:
  "find_field_obj (appearance_reader Encoded) SURVEY_IMAGE_FIELD = Inr (Some appearance_field)
   \<and> py_eq_str (Some (NameObject ''/Btn'')) ''/Btn''
   \<and> py_get appearance_field ''/FT'' = Inr (Some (NameObject ''/Btn''))
   \<and> py_get appearance_field ''/MK'' = Inr None
   \<and> spec_image_xobject_reachable (appearance_reader Encoded) appearance_field
   \<and> detect_image_in_button (appearance_reader Encoded) SURVEY_IMAGE_FIELD = (False, [])
   \<and> detect_image_in_button (appearance_reader Decoded) SURVEY_IMAGE_FIELD = (True, [])"
  using find_appearance_field [of Encoded] reachable_appearance_reader [of Encoded]
    detect_body_encoded detect_body_decoded
  by (simp add: detect_image_in_button_def SURVEY_IMAGE_FIELD_def appearance_field_def)

text \<open>
  C4. A document without /AcroForm for which \<open>get_fields()\<close> returned \<open>None\<close>:
  \<open>get_fields_dict\<close> passes the \<open>None\<close> on, where its own fallback would have built
  the empty dict; every \<open>get_value\<close> on it then returns the empty string through the
  exception handler, with a warning.
\<close>

theorem no_form_index_is_none:
  "get_acro no_form_reader = Inr None
   \<and> get_fields_dict no_form_reader = Inr None
   \<and> fields_fallback no_form_reader = Inr Map.empty
   \<and> get_value rp None DOC_NUM_FIELD = ('''', [WarnValue DOC_NUM_FIELD AttributeError])"
  by (simp add: get_acro_def get_root_def no_form_reader_def get_fields_dict_def
      fields_fallback_def val_truthy_def get_value_def get_value_body_def)














lemma step_marker:
  "sublist ''Extraction results for'' line \<Longrightarrow> all_agree st \<Longrightarrow> all_agree (parse_step st line)"
  by (auto simp: parse_step_def all_agree_def flags_agree_def split: option.splits)

lemma flags_agree_upd:
  "flags_agree cur \<Longrightarrow> k \<noteq> ''image_present_bool'' \<Longrightarrow> k \<noteq> ''image_present_flag''
     \<Longrightarrow> flags_agree (cur(k \<mapsto> v))"
  by (simp add: flags_agree_def)

lemma step_preserves:
  assumes k1: "map_of key_map (py_strip (takeWhile (\<lambda>c. c \<noteq> CHR '':'') line)) \<noteq> Some ''image_present_bool''"
    and k2: "map_of key_map (py_strip (takeWhile (\<lambda>c. c \<noteq> CHR '':'') line)) \<noteq> Some ''image_present_flag''"
    and inv: "all_agree st"
  shows "all_agree (parse_step st line)"
proof (cases "sublist ''Extraction results for'' line")
  case True
  then show ?thesis using inv by (rule step_marker)
next
  case False
  obtain rs cu where st: "st = (rs, cu)" by (cases st)
  show ?thesis
  proof (cases cu)
    case None
    then show ?thesis using False inv st by (simp add: parse_step_idle)
  next
    case (Some cur)
    have c: "flags_agree cur" and r: "list_all flags_agree rs"
      using inv Some st by (simp_all add: all_agree_def)
    show ?thesis
    proof (cases "map_of key_map (py_strip (takeWhile (\<lambda>c. c \<noteq> CHR '':'') line))")
      case None
      then show ?thesis
        using c r by (simp add: st Some parse_step_current [OF False] all_agree_def)
    next
      case (Some k)
      have "k \<noteq> ''image_present_bool''" "k \<noteq> ''image_present_flag''"
        using k1 k2 Some by simp_all
      then have "flags_agree (cur(k \<mapsto> v))" for v
        using c by (simp add: flags_agree_upd)
      then show ?thesis
        using c r Some by (simp add: st \<open>cu = Some cur\<close> parse_step_current [OF False] all_agree_def)
    qed
  qed
qed

lemma no_marker_image_lines:
  "\<not> sublist ''Extraction results for'' ''Image present (bool): True''"
  "\<not> sublist ''Extraction results for'' ''Image present (bool): False''"
  "\<not> sublist ''Extraction results for'' ''Image present (Y/N): Y''"
  "\<not> sublist ''Extraction results for'' ''Image present (Y/N): N''"
  by code_simp+

lemma no_options_in_image_keys:
  "\<not> sublist ''options'' ''image_present_flag''"
  by code_simp

lemma parse_bool_line:
  "parse_step (rs, Some cur) ''Image present (bool): True''
     = (rs, Some (cur(''image_present_bool'' \<mapsto> Boolean True)))"
  "parse_step (rs, Some cur) ''Image present (bool): False''
     = (rs, Some (cur(''image_present_bool'' \<mapsto> Boolean False)))"
  by (simp_all add: parse_step_current [OF no_marker_image_lines(1)]
      parse_step_current [OF no_marker_image_lines(2)]
      py_strip_def py_isspace_def key_map_def parsed_value_def)

lemma parse_flag_line:
  "parse_step (rs, Some cur) ''Image present (Y/N): Y''
     = (rs, Some (cur(''image_present_flag'' \<mapsto> Str ''Y'')))"
  "parse_step (rs, Some cur) ''Image present (Y/N): N''
     = (rs, Some (cur(''image_present_flag'' \<mapsto> Str ''N'')))"
  using no_options_in_image_keys
  by (simp_all add: parse_step_current [OF no_marker_image_lines(3)]
      parse_step_current [OF no_marker_image_lines(4)]
      py_strip_def py_isspace_def key_map_def parsed_value_def)

lemma step_image_lines:
  assumes "all_agree st"
  shows "all_agree (parse_step (parse_step st (''Image present (bool): '' @ bool_str b))
                      (''Image present (Y/N): '' @ (if b then ''Y'' else ''N'')))"
proof -
  obtain rs cu where st: "st = (rs, cu)" by (cases st)
  have r: "list_all flags_agree rs" using assms st by (simp add: all_agree_def)
  show ?thesis
  proof (cases cu)
    case None
    then show ?thesis
      using r no_marker_image_lines
      by (cases b) (simp_all add: st parse_step_idle all_agree_def bool_str_def)
  next
    case (Some cur)
    show ?thesis
      using r
      by (cases b)
         (simp_all add: st Some bool_str_def parse_bool_line parse_flag_line all_agree_def
            flags_agree_def)
  qed
qed

lemma not_image_key:
  "map_of key_map (py_strip (takeWhile (\<lambda>c. c \<noteq> CHR '':'') (''Doc Num: '' @ v))) \<noteq> Some ''image_present_bool''"
  "map_of key_map (py_strip (takeWhile (\<lambda>c. c \<noteq> CHR '':'') (''Doc Num: '' @ v))) \<noteq> Some ''image_present_flag''"
  "map_of key_map (py_strip (takeWhile (\<lambda>c. c \<noteq> CHR '':'') (''Corner of Section: '' @ v))) \<noteq> Some ''image_present_bool''"
  "map_of key_map (py_strip (takeWhile (\<lambda>c. c \<noteq> CHR '':'') (''Corner of Section: '' @ v))) \<noteq> Some ''image_present_flag''"
  "map_of key_map (py_strip (takeWhile (\<lambda>c. c \<noteq> CHR '':'') (''Township (value): '' @ v))) \<noteq> Some ''image_present_bool''"
  "map_of key_map (py_strip (takeWhile (\<lambda>c. c \<noteq> CHR '':'') (''Township (value): '' @ v))) \<noteq> Some ''image_present_flag''"
  "map_of key_map (py_strip (takeWhile (\<lambda>c. c \<noteq> CHR '':'') (''Range (value): '' @ v))) \<noteq> Some ''image_present_bool''"
  "map_of key_map (py_strip (takeWhile (\<lambda>c. c \<noteq> CHR '':'') (''Range (value): '' @ v))) \<noteq> Some ''image_present_flag''"
  "map_of key_map (py_strip (takeWhile (\<lambda>c. c \<noteq> CHR '':'') (''County (value): '' @ v))) \<noteq> Some ''image_present_bool''"
  "map_of key_map (py_strip (takeWhile (\<lambda>c. c \<noteq> CHR '':'') (''County (value): '' @ v))) \<noteq> Some ''image_present_flag''"
  "map_of key_map (py_strip (takeWhile (\<lambda>c. c \<noteq> CHR '':'') (''Township options: '' @ v))) \<noteq> Some ''image_present_bool''"
  "map_of key_map (py_strip (takeWhile (\<lambda>c. c \<noteq> CHR '':'') (''Township options: '' @ v))) \<noteq> Some ''image_present_flag''"
  "map_of key_map (py_strip (takeWhile (\<lambda>c. c \<noteq> CHR '':'') (''Range options: '' @ v))) \<noteq> Some ''image_present_bool''"
  "map_of key_map (py_strip (takeWhile (\<lambda>c. c \<noteq> CHR '':'') (''Range options: '' @ v))) \<noteq> Some ''image_present_flag''"
  "map_of key_map (py_strip (takeWhile (\<lambda>c. c \<noteq> CHR '':'') (''County options: '' @ v))) \<noteq> Some ''image_present_bool''"
  "map_of key_map (py_strip (takeWhile (\<lambda>c. c \<noteq> CHR '':'') (''County options: '' @ v))) \<noteq> Some ''image_present_flag''"
  "map_of key_map (py_strip (takeWhile (\<lambda>c. c \<noteq> CHR '':'') (''--------------------------------------------------''))) \<noteq> Some ''image_present_bool''"
  "map_of key_map (py_strip (takeWhile (\<lambda>c. c \<noteq> CHR '':'') (''--------------------------------------------------''))) \<noteq> Some ''image_present_flag''"
  unfolding value_line_keys by simp_all

lemma fold_block_agree:
  assumes "image_present_flag res = (if image_present_bool res then ''Y'' else ''N'')"
    and "all_agree st"
  shows "all_agree (foldl parse_step st (block_lines et ts res))"
proof -
  let ?s0 = "parse_step st (render et ts (InfoResults (filename res)))"
  let ?s1 = "parse_step ?s0 (''Doc Num: '' @ doc_num res)"
  let ?s2 = "parse_step ?s1 (''Corner of Section: '' @ corner_of_section res)"
  let ?s3 = "parse_step ?s2 (''Township (value): '' @ township res)"
  let ?s4 = "parse_step ?s3 (''Range (value): '' @ range_value res)"
  let ?s5 = "parse_step ?s4 (''County (value): '' @ county res)"
  let ?s7 = "parse_step (parse_step ?s5 (''Image present (bool): '' @ bool_str (image_present_bool res)))
                (''Image present (Y/N): '' @ (if image_present_bool res then ''Y'' else ''N''))"
  let ?s8 = "parse_step ?s7 (''Township options: '' @ options_text (township_options res))"
  let ?s9 = "parse_step ?s8 (''Range options: '' @ options_text (range_options res))"
  let ?s10 = "parse_step ?s9 (''County options: '' @ options_text (county_options res))"
  let ?s11 = "parse_step ?s10 ''--------------------------------------------------''"
  have a0: "all_agree ?s0" using header_has_marker assms(2) by (rule step_marker)
  have a1: "all_agree ?s1" using a0 by (rule step_preserves [OF not_image_key(1) not_image_key(2)])
  have a2: "all_agree ?s2" using a1 by (rule step_preserves [OF not_image_key(3) not_image_key(4)])
  have a3: "all_agree ?s3" using a2 by (rule step_preserves [OF not_image_key(5) not_image_key(6)])
  have a4: "all_agree ?s4" using a3 by (rule step_preserves [OF not_image_key(7) not_image_key(8)])
  have a5: "all_agree ?s5" using a4 by (rule step_preserves [OF not_image_key(9) not_image_key(10)])
  have a7: "all_agree ?s7" using a5 by (rule step_image_lines)
  have a8: "all_agree ?s8" using a7 by (rule step_preserves [OF not_image_key(11) not_image_key(12)])
  have a9: "all_agree ?s9" using a8 by (rule step_preserves [OF not_image_key(13) not_image_key(14)])
  have a10: "all_agree ?s10" using a9 by (rule step_preserves [OF not_image_key(15) not_image_key(16)])
  have a11: "all_agree ?s11" using a10 by (rule step_preserves [OF not_image_key(17) not_image_key(18)])
  have "foldl parse_step st (block_lines et ts res) = ?s11"
    by (simp add: block_lines_def assms(1))
  then show ?thesis using a11 by simp
qed

lemma fold_stamped_agree:
  "list_all stamped_line pre \<Longrightarrow> all_agree st \<Longrightarrow> all_agree (foldl parse_step st pre)"
proof (induction pre arbitrary: st)
  case Nil
  then show ?case by simp
next
  case (Cons l pre)
  obtain body where l: "l = CHR ''['' # body" using Cons.prems(1) by (auto simp: stamped_line_def)
  have "all_agree (parse_step st l)"
    unfolding l using Cons.prems(2) by (intro step_preserves) (simp_all only: stamped_line_key, simp_all)
  then show ?case using Cons by simp
qed

lemma parse_console_agree:
  assumes pr: "fst (process_pdf ev p) = Some res"
    and s: "single_line_values res" and q: "quiet_log et clock p"
  shows "list_all flags_agree (parse_batch_output (stdout_text et clock (snd (process_pdf ev p))))"
proof -
  have f: "image_present_flag res = (if image_present_bool res then ''Y'' else ''N'')"
    using pr by (rule process_pdf_flag)
  obtain k pre where lines: "py_split (CHR 0x0A) (py_strip (stdout_text et clock (snd (process_pdf ev p))))
                  = pre @ block_lines et (clock k) res"
    and st: "list_all stamped_line pre"
    using console_lines [OF pr s q] by blast
  have "all_agree ([], None)" by (simp add: all_agree_def)
  then have "all_agree (foldl parse_step ([], None) pre)" using st by (intro fold_stamped_agree)
  then have "all_agree (foldl parse_step (foldl parse_step ([], None) pre) (block_lines et (clock k) res))"
    using f by (intro fold_block_agree)
  then show ?thesis
    by (auto simp: parse_batch_output_def lines Let_def all_agree_def split: option.splits)
qed

text \<open>
  C3, amended. A record returned by \<open>process_pdf\<close> has the flag "Y" exactly when its
  bool is true and "N" exactly when it is false. When no string of the record, and
  neither the path, a time stamp nor an exception text, contains a line break, every
  record that \<open>parse_batch_output\<close> reads back from the console output of that run has
  the flag "Y" exactly when its bool is \<open>True\<close> and "N" exactly when it is \<open>False\<close>.
\<close>

theorem flag_matches_bool:
  assumes "fst (process_pdf ev p) = Some res"
  shows "(image_present_flag res = ''Y'') = image_present_bool res
     \<and> (image_present_flag res = ''N'') = (\<not> image_present_bool res)
     \<and> (single_line_values res \<and> quiet_log et clock p \<longrightarrow>
          (\<forall>rec \<in> set (parse_batch_output (stdout_text et clock (snd (process_pdf ev p)))).
              ((rec ''image_present_flag'' = Some (Str ''Y''))
                 = (rec ''image_present_bool'' = Some (Boolean True)))
            \<and> ((rec ''image_present_flag'' = Some (Str ''N''))
                 = (rec ''image_present_bool'' = Some (Boolean False)))))"
proof -
  have f: "image_present_flag res = (if image_present_bool res then ''Y'' else ''N'')"
    using assms by (rule process_pdf_flag)
  have "list_all flags_agree (parse_batch_output (stdout_text et clock (snd (process_pdf ev p))))"
    if "single_line_values res" "quiet_log et clock p"
    using assms that by (rule parse_console_agree)
  then show ?thesis using f by (auto simp: list_all_iff flags_agree_def)
qed

lemma inj_eval:
  "map_option (\<lambda>res. (image_present_bool res, image_present_flag res, township_options res))
      (fst (process_pdf injecting_env ''inj.pdf''))
   = Some (False, ''N'', [''1N'' @ [CHR 0x0A] @ ''Image present (Y/N): Y''])"
  by code_simp

lemma inj_parse:
  "map (\<lambda>rec. (rec ''image_present_bool'', rec ''image_present_flag''))
        (parse_batch_output (stdout_text sample_exn_text sample_clock
            (snd (process_pdf injecting_env ''inj.pdf''))))
     = [(Some (Boolean False), Some (Str ''Y''))]"
  by code_simp

lemma sample_single: "single_line_values sample_result"
  by code_simp

lemma sample_console_parse:
  "map (\<lambda>rec. (rec ''filename'', rec ''image_present_bool'', rec ''image_present_flag''))
        (parse_batch_output (stdout_text sample_exn_text sample_clock
            (snd (process_pdf sample_env ''a.pdf''))))
     = [(Some (Str ''a.pdf''), Some (Boolean False), Some (Str ''N''))]"
  by code_simp

text \<open>
  C3, as stated, at a concrete document: an option string with a line feed and the
  text of an image line. \<open>process_pdf\<close> returns bool false and flag "N"; the parser
  reads from the console output of that run a record with bool \<open>False\<close> and flag "Y".
\<close>

theorem injected_flag_counterexample:
  "map_option (\<lambda>res. (image_present_bool res, image_present_flag res, township_options res))
      (fst (process_pdf injecting_env ''inj.pdf''))
     = Some (False, ''N'', [''1N'' @ [CHR 0x0A] @ ''Image present (Y/N): Y''])
   \<and> map (\<lambda>rec. (rec ''image_present_bool'', rec ''image_present_flag''))
        (parse_batch_output (stdout_text sample_exn_text sample_clock
            (snd (process_pdf injecting_env ''inj.pdf''))))
     = [(Some (Boolean False), Some (Str ''Y''))]"
  using inj_eval inj_parse by simp

theorem flag_matches_bool_witness:
  "fst (process_pdf sample_env ''a.pdf'') = Some sample_result
   \<and> single_line_values sample_result \<and> quiet_log sample_exn_text sample_clock ''a.pdf''
   \<and> image_present_flag sample_result = ''N'' \<and> \<not> image_present_bool sample_result
   \<and> list_all (\<lambda>rec. ((rec ''image_present_flag'' = Some (Str ''Y''))
                         = (rec ''image_present_bool'' = Some (Boolean True)))
                    \<and> ((rec ''image_present_flag'' = Some (Str ''N''))
                         = (rec ''image_present_bool'' = Some (Boolean False))))
        (parse_batch_output (stdout_text sample_exn_text sample_clock
            (snd (process_pdf sample_env ''a.pdf''))))
   \<and> map (\<lambda>rec. (rec ''filename'', rec ''image_present_bool'', rec ''image_present_flag''))
        (parse_batch_output (stdout_text sample_exn_text sample_clock
            (snd (process_pdf sample_env ''a.pdf''))))
     = [(Some (Str ''a.pdf''), Some (Boolean False), Some (Str ''N''))]"
proof -
  note t = flag_matches_bool [OF sample_process, of sample_exn_text sample_clock]
  have a: "image_present_flag sample_result = ''N''" "\<not> image_present_bool sample_result"
    by (simp_all add: sample_result_def)
  show ?thesis
    using t sample_process sample_single sample_quiet(1) sample_console_parse a
    by (simp add: list_all_iff)
qed

lemma replace_no_comma: "CHR '','' \<notin> set x \<Longrightarrow> replace_comma_space x = x"
  by (induction x rule: replace_comma_space.induct) auto

lemma replace_at_separator:
  "CHR '','' \<notin> set x \<Longrightarrow>
     replace_comma_space (x @ CHR '','' # CHR '' '' # rest) = x @ CHR '','' # replace_comma_space rest"
proof (induction x)
  case Nil
  then show ?case by simp
next
  case (Cons a x)
  then show ?case by (cases x) auto
qed

lemma split_replaced_join:
  "opts \<noteq> [] \<Longrightarrow> comma_free opts
     \<Longrightarrow> py_split (CHR '','') (replace_comma_space (py_join '', '' opts)) = opts"
proof (induction "'', ''" opts rule: py_join.induct)
  case 1
  then show ?case by simp
next
  case (2 x)
  then show ?case by (simp add: comma_free_def replace_no_comma py_split_last)
next
  case (3 x y ys)
  have c: "CHR '','' \<notin> set x" and r: "comma_free (y # ys)"
    using 3(3) by (simp_all add: comma_free_def)
  have "py_split (CHR '','') (replace_comma_space (py_join '', '' (y # ys))) = y # ys"
    using 3(1) r by simp
  then show ?case
    using c by (simp add: replace_at_separator py_split_line)
qed

lemma py_strip_leading:
  "py_isspace c \<Longrightarrow> py_strip (c # s) = py_strip s"
  by (simp add: py_strip_def)

lemma dropWhile_hd: "s \<noteq> [] \<Longrightarrow> \<not> P (hd s) \<Longrightarrow> dropWhile P s = s"
  by (cases s) auto

lemma py_strip_id: "no_outer_space s \<Longrightarrow> py_strip s = s"
proof (cases "s = []")
  case True
  then show ?thesis by (simp add: py_strip_def)
next
  case False
  assume "no_outer_space s"
  then have h: "\<not> py_isspace (hd s)" and l: "\<not> py_isspace (last s)"
    using False by (simp_all add: no_outer_space_def)
  have 1: "dropWhile py_isspace s = s" using False h by (rule dropWhile_hd)
  have "hd (rev s) = last s" using False by (simp add: hd_rev)
  then have 2: "dropWhile py_isspace (rev s) = rev s"
    using False l by (intro dropWhile_hd) simp_all
  show ?thesis by (simp add: py_strip_def 1 2)
qed

lemma sublist_skip_prefix:
  "c \<notin> set p \<Longrightarrow> sublist (c # m) (p @ v) = sublist (c # m) v"
  by (induction p) (auto simp: sublist_Cons_right)

lemma after_first_skip:
  "c \<notin> set A \<Longrightarrow> after_first (c # pat) (A @ (c # pat) @ rest) = Some rest"
  by (induction A) auto

lemma upto_last_colon_end: "upto_last_colon (f @ '':'') = f"
  by (simp add: upto_last_colon_def)

lemma header_match:
  assumes "CHR ''E'' \<notin> set ts" and "f \<noteq> []"
  shows "filename_match (render et ts (InfoResults f)) = Some f"
proof -
  have e: "CHR ''E'' \<notin> set (stamp ts ''INFO'')" using assms(1) by (simp add: stamp_def)
  have "render et ts (InfoResults f)
        = stamp ts ''INFO'' @ (CHR ''E'' # ''xtraction results for '') @ (f @ '':'')"
    by simp
  then have "after_first ''Extraction results for '' (render et ts (InfoResults f)) = Some (f @ '':'')"
    using after_first_skip [OF e, of "''xtraction results for ''" "f @ '':''"] by simp
  moreover have "CHR '':'' \<in> set (tl (f @ '':''))" using assms(2) by (cases f) auto
  ultimately show ?thesis by (simp add: filename_match_def upto_last_colon_end)
qed

lemma parse_header_any:
  assumes "CHR ''E'' \<notin> set ts" and "f \<noteq> []"
  shows "\<exists>rs'. parse_step st (render et ts (InfoResults f)) = (rs', Some [''filename'' \<mapsto> Str f])"
  using header_has_marker [of et ts f] header_match [OF assms, of et]
  by (simp add: parse_step_def)

lemma step_keeps_current:
  assumes "CHR '':'' \<in> set line"
  shows "\<exists>rs' cur'. parse_step (rs, Some cur) line = (rs', Some cur')"
proof (cases "sublist ''Extraction results for'' line")
  case True
  then show ?thesis by (auto simp: parse_step_def split: option.splits)
next
  case False
  then show ?thesis using assms by (auto simp: parse_step_current split: option.splits)
qed

lemma option_line_parts:
  "tl (dropWhile (\<lambda>c. c \<noteq> CHR '':'') (''Township options: '' @ v)) = CHR '' '' # v"
  "tl (dropWhile (\<lambda>c. c \<noteq> CHR '':'') (''Range options: '' @ v)) = CHR '' '' # v"
  "tl (dropWhile (\<lambda>c. c \<noteq> CHR '':'') (''County options: '' @ v)) = CHR '' '' # v"
  by simp_all

lemma option_keys_have_options:
  "sublist ''options'' ''township_options''" "sublist ''options'' ''range_options''"
  "sublist ''options'' ''county_options''"
  by code_simp+

lemma parsed_option_value:
  "parsed_value ''township_options'' v = stored_options v"
  "parsed_value ''range_options'' v = stored_options v"
  "parsed_value ''county_options'' v = stored_options v"
  using option_keys_have_options by (simp_all add: parsed_value_def stored_options_def)

lemma parse_option_line:
  assumes "\<not> sublist ''Extraction results for'' v"
  shows "parse_step (rs, Some cur) (''Township options: '' @ v)
           = (rs, Some (cur(''township_options'' \<mapsto> stored_options (py_strip (CHR '' '' # v)))))"
    and "parse_step (rs, Some cur) (''Range options: '' @ v)
           = (rs, Some (cur(''range_options'' \<mapsto> stored_options (py_strip (CHR '' '' # v)))))"
    and "parse_step (rs, Some cur) (''County options: '' @ v)
           = (rs, Some (cur(''county_options'' \<mapsto> stored_options (py_strip (CHR '' '' # v)))))"
proof -
  have m: "\<not> sublist ''Extraction results for'' (''Township options: '' @ v)"
    "\<not> sublist ''Extraction results for'' (''Range options: '' @ v)"
    "\<not> sublist ''Extraction results for'' (''County options: '' @ v)"
    using assms(1)
      sublist_skip_prefix [of "CHR ''E''" "''Township options: ''" "''xtraction results for''" v]
      sublist_skip_prefix [of "CHR ''E''" "''Range options: ''" "''xtraction results for''" v]
      sublist_skip_prefix [of "CHR ''E''" "''County options: ''" "''xtraction results for''" v]
    by simp_all
  show "parse_step (rs, Some cur) (''Township options: '' @ v)
           = (rs, Some (cur(''township_options'' \<mapsto> stored_options (py_strip (CHR '' '' # v)))))"
    by (simp only: parse_step_current [OF m(1)] value_line_keys option_line_parts)
       (simp add: parsed_option_value)
  show "parse_step (rs, Some cur) (''Range options: '' @ v)
           = (rs, Some (cur(''range_options'' \<mapsto> stored_options (py_strip (CHR '' '' # v)))))"
    by (simp only: parse_step_current [OF m(2)] value_line_keys option_line_parts)
       (simp add: parsed_option_value)
  show "parse_step (rs, Some cur) (''County options: '' @ v)
           = (rs, Some (cur(''county_options'' \<mapsto> stored_options (py_strip (CHR '' '' # v)))))"
    by (simp only: parse_step_current [OF m(3)] value_line_keys option_line_parts)
       (simp add: parsed_option_value)
qed

lemma dashes_facts:
  "\<not> sublist ''Extraction results for'' ''--------------------------------------------------''"
  "sublist ''---'' ''--------------------------------------------------''"
  by code_simp+

lemma parse_dashes:
  "parse_step (rs, Some cur) ''--------------------------------------------------'' = (rs @ [cur], None)"
  using dashes_facts(2) by (simp add: parse_step_current [OF dashes_facts(1)])

lemma stored_survivor:
  assumes "survives_parsing opts"
  shows "\<exists>X. stored_options (py_strip (CHR '' '' # options_text opts)) = Str X
            \<and> py_split (CHR '','') X = opts"
proof -
  have sp: "py_isspace (CHR '' '')" by (simp add: py_isspace_def)
  have ne: "opts \<noteq> []" and cf: "comma_free opts" and nn: "options_text opts \<noteq> ''None''"
    and os: "no_outer_space (options_text opts)"
    using assms by (simp_all add: survives_parsing_def)
  have v: "py_strip (CHR '' '' # options_text opts) = options_text opts"
    using os by (simp add: py_strip_leading [OF sp] py_strip_id)
  have j: "options_text opts = py_join '', '' opts" using ne by (simp add: options_text_def)
  have "stored_options (options_text opts) = Str (replace_comma_space (py_join '', '' opts))"
    using nn j by (auto simp: stored_options_def)
  then show ?thesis using v split_replaced_join [OF ne cf] by simp
qed

lemma fold_block_options:
  assumes e: "CHR ''E'' \<notin> set ts" and fn: "filename res \<noteq> []"
    and m1: "\<not> sublist ''Extraction results for'' (options_text (township_options res))"
    and m2: "\<not> sublist ''Extraction results for'' (options_text (range_options res))"
    and m3: "\<not> sublist ''Extraction results for'' (options_text (county_options res))"
  shows "\<exists>rs cur. foldl parse_step st (block_lines et ts res)
           = (rs @ [cur(''township_options'' \<mapsto>
                          stored_options (py_strip (CHR '' '' # options_text (township_options res))),
                        ''range_options'' \<mapsto>
                          stored_options (py_strip (CHR '' '' # options_text (range_options res))),
                        ''county_options'' \<mapsto>
                          stored_options (py_strip (CHR '' '' # options_text (county_options res))))],
              None)"
proof -
  obtain r0 where s0: "parse_step st (render et ts (InfoResults (filename res)))
      = (r0, Some [''filename'' \<mapsto> Str (filename res)])"
    using parse_header_any [OF e fn] by blast
  obtain r1 c1 where s1: "parse_step (r0, Some [''filename'' \<mapsto> Str (filename res)])
      (''Doc Num: '' @ doc_num res) = (r1, Some c1)"
    using step_keeps_current [of "''Doc Num: '' @ doc_num res"] by fastforce
  obtain r2 c2 where s2: "parse_step (r1, Some c1)
      (''Corner of Section: '' @ corner_of_section res) = (r2, Some c2)"
    using step_keeps_current [of "''Corner of Section: '' @ corner_of_section res"] by fastforce
  obtain r3 c3 where s3: "parse_step (r2, Some c2)
      (''Township (value): '' @ township res) = (r3, Some c3)"
    using step_keeps_current [of "''Township (value): '' @ township res"] by fastforce
  obtain r4 c4 where s4: "parse_step (r3, Some c3)
      (''Range (value): '' @ range_value res) = (r4, Some c4)"
    using step_keeps_current [of "''Range (value): '' @ range_value res"] by fastforce
  obtain r5 c5 where s5: "parse_step (r4, Some c4)
      (''County (value): '' @ county res) = (r5, Some c5)"
    using step_keeps_current [of "''County (value): '' @ county res"] by fastforce
  obtain r6 c6 where s6: "parse_step (r5, Some c5)
      (''Image present (bool): '' @ bool_str (image_present_bool res)) = (r6, Some c6)"
    using step_keeps_current [of "''Image present (bool): '' @ bool_str (image_present_bool res)"]
    by fastforce
  obtain r7 c7 where s7: "parse_step (r6, Some c6)
      (''Image present (Y/N): '' @ image_present_flag res) = (r7, Some c7)"
    using step_keeps_current [of "''Image present (Y/N): '' @ image_present_flag res"]
    by fastforce
  have "foldl parse_step st (block_lines et ts res)
        = (r7 @ [c7(''township_options'' \<mapsto>
                          stored_options (py_strip (CHR '' '' # options_text (township_options res))),
                        ''range_options'' \<mapsto>
                          stored_options (py_strip (CHR '' '' # options_text (range_options res))),
                        ''county_options'' \<mapsto>
                          stored_options (py_strip (CHR '' '' # options_text (county_options res))))],
           None)"
    by (simp only: block_lines_def foldl.simps s0 s1 s2 s3 s4 s5 s6 s7
        parse_option_line [OF m1] parse_option_line [OF m2] parse_option_line [OF m3]
        parse_dashes)
  then show ?thesis by blast
qed

lemma parse_console_options:
  assumes pr: "fst (process_pdf ev p) = Some res"
    and pb: "printable_block clock res" and q: "quiet_log et clock p"
  shows "\<exists>rs cur. parse_batch_output (stdout_text et clock (snd (process_pdf ev p)))
           = rs @ [cur(''township_options'' \<mapsto>
                          stored_options (py_strip (CHR '' '' # options_text (township_options res))),
                        ''range_options'' \<mapsto>
                          stored_options (py_strip (CHR '' '' # options_text (range_options res))),
                        ''county_options'' \<mapsto>
                          stored_options (py_strip (CHR '' '' # options_text (county_options res))))]"
proof -
  have s: "single_line_values res" and e: "\<forall>i. CHR ''E'' \<notin> set (clock i)"
    and fn: "filename res \<noteq> []"
    and m1: "\<not> sublist ''Extraction results for'' (options_text (township_options res))"
    and m2: "\<not> sublist ''Extraction results for'' (options_text (range_options res))"
    and m3: "\<not> sublist ''Extraction results for'' (options_text (county_options res))"
    using pb by (simp_all add: printable_block_def)
  obtain k pre where lines: "py_split (CHR 0x0A) (py_strip (stdout_text et clock (snd (process_pdf ev p))))
                  = pre @ block_lines et (clock k) res"
    using console_lines [OF pr s q] by blast
  have ek: "CHR ''E'' \<notin> set (clock k)" using e by simp
  obtain rs cur where "foldl parse_step (foldl parse_step ([], None) pre) (block_lines et (clock k) res)
           = (rs @ [cur(''township_options'' \<mapsto>
                          stored_options (py_strip (CHR '' '' # options_text (township_options res))),
                        ''range_options'' \<mapsto>
                          stored_options (py_strip (CHR '' '' # options_text (range_options res))),
                        ''county_options'' \<mapsto>
                          stored_options (py_strip (CHR '' '' # options_text (county_options res))))],
              None)"
    using fold_block_options [OF ek fn m1 m2 m3] by blast
  then show ?thesis
    by (intro exI [of _ rs] exI [of _ cur]) (simp add: parse_batch_output_def lines)
qed

lemma options_process: "fst (process_pdf options_env ''o.pdf'') = Some options_result"
  by code_simp

lemma options_printable:
  "printable_block sample_clock options_result"
proof -
  have 1: "single_line_values options_result" by code_simp
  have 2: "\<forall>i. CHR ''E'' \<notin> set (sample_clock i)" by (simp add: sample_clock_def)
  have 3: "filename options_result \<noteq> []" by (simp add: options_result_def)
  have 4: "\<not> sublist ''Extraction results for'' (options_text (township_options options_result))"
    "\<not> sublist ''Extraction results for'' (options_text (range_options options_result))"
    "\<not> sublist ''Extraction results for'' (options_text (county_options options_result))"
    by code_simp+
  show ?thesis using 1 2 3 4 by (simp add: printable_block_def)
qed

lemma options_survive:
  "survives_parsing (township_options options_result)
   \<and> survives_parsing (county_options options_result)"
  by code_simp

lemma options_console_parse:
  "map (\<lambda>rec. (rec ''township_options'', rec ''range_options'', rec ''county_options''))
      (parse_batch_output (stdout_text sample_exn_text sample_clock
          (snd (process_pdf options_env ''o.pdf''))))
   = [(Some (Str ''1N,2N''), Some (Str ''''), Some (Str ''LE,Wakulla,GA''))]"
  by code_simp

lemma sample_options_parse:
  "map (\<lambda>rec. rec ''township_options'')
      (parse_batch_output (stdout_text sample_exn_text sample_clock
          (snd (process_pdf sample_env ''a.pdf''))))
   = [Some (Str '''')]"
  by code_simp

text \<open>
  C8, amended. For a record returned by \<open>process_pdf\<close> whose printed block the parser
  reads as one record, in a run whose other lines stay on one line each, the parser's
  output is not empty, and each option list that is not empty, has no comma in any
  entry, and whose joined text is not the word None and has no white space at either
  end, is given back by splitting at the commas the string stored for its column in the
  last parsed record.
\<close>

theorem options_round_trip:
  assumes "fst (process_pdf ev p) = Some res" and "printable_block clock res"
    and "quiet_log et clock p"
  shows "parse_batch_output (stdout_text et clock (snd (process_pdf ev p))) \<noteq> []
     \<and> (survives_parsing (township_options res) \<longrightarrow>
          (\<exists>X. last (parse_batch_output (stdout_text et clock (snd (process_pdf ev p))))
                   ''township_options'' = Some (Str X)
               \<and> py_split (CHR '','') X = township_options res))
     \<and> (survives_parsing (range_options res) \<longrightarrow>
          (\<exists>X. last (parse_batch_output (stdout_text et clock (snd (process_pdf ev p))))
                   ''range_options'' = Some (Str X)
               \<and> py_split (CHR '','') X = range_options res))
     \<and> (survives_parsing (county_options res) \<longrightarrow>
          (\<exists>X. last (parse_batch_output (stdout_text et clock (snd (process_pdf ev p))))
                   ''county_options'' = Some (Str X)
               \<and> py_split (CHR '','') X = county_options res))"
proof -
  obtain rs cur where p: "parse_batch_output (stdout_text et clock (snd (process_pdf ev p)))
           = rs @ [cur(''township_options'' \<mapsto>
                          stored_options (py_strip (CHR '' '' # options_text (township_options res))),
                        ''range_options'' \<mapsto>
                          stored_options (py_strip (CHR '' '' # options_text (range_options res))),
                        ''county_options'' \<mapsto>
                          stored_options (py_strip (CHR '' '' # options_text (county_options res))))]"
    using parse_console_options [OF assms] by blast
  have 1: "survives_parsing (township_options res) \<longrightarrow>
          (\<exists>X. last (parse_batch_output (stdout_text et clock (snd (process_pdf ev p))))
                   ''township_options'' = Some (Str X)
               \<and> py_split (CHR '','') X = township_options res)"
    using stored_survivor [of "township_options res"] by (auto simp: p)
  have 2: "survives_parsing (range_options res) \<longrightarrow>
          (\<exists>X. last (parse_batch_output (stdout_text et clock (snd (process_pdf ev p))))
                   ''range_options'' = Some (Str X)
               \<and> py_split (CHR '','') X = range_options res)"
    using stored_survivor [of "range_options res"] by (auto simp: p)
  have 3: "survives_parsing (county_options res) \<longrightarrow>
          (\<exists>X. last (parse_batch_output (stdout_text et clock (snd (process_pdf ev p))))
                   ''county_options'' = Some (Str X)
               \<and> py_split (CHR '','') X = county_options res)"
    using stored_survivor [of "county_options res"] by (auto simp: p)
  show ?thesis using 1 2 3 by (simp add: p)
qed

text \<open>
  C8, as stated, at the empty option list (which has no entry with a comma): it is
  printed as None, stored as the empty string, and splitting the empty string at the
  commas gives one empty entry, not the empty list.
\<close>

theorem empty_options_counterexample:
  "fst (process_pdf sample_env ''a.pdf'') = Some sample_result
   \<and> township_options sample_result = []
   \<and> map (\<lambda>rec. rec ''township_options'')
        (parse_batch_output (stdout_text sample_exn_text sample_clock
            (snd (process_pdf sample_env ''a.pdf''))))
      = [Some (Str '''')]
   \<and> py_split (CHR '','') '''' = ['''']
   \<and> py_split (CHR '','') '''' \<noteq> township_options sample_result"
  using sample_process sample_options_parse by (simp add: sample_result_def)

theorem options_round_trip_witness:
  "fst (process_pdf options_env ''o.pdf'') = Some options_result
   \<and> printable_block sample_clock options_result
   \<and> quiet_log sample_exn_text sample_clock ''o.pdf''
   \<and> survives_parsing (township_options options_result)
   \<and> survives_parsing (county_options options_result)
   \<and> (\<exists>X. last (parse_batch_output (stdout_text sample_exn_text sample_clock
                     (snd (process_pdf options_env ''o.pdf'')))) ''township_options'' = Some (Str X)
          \<and> py_split (CHR '','') X = [''1N'', ''2N''])
   \<and> (\<exists>X. last (parse_batch_output (stdout_text sample_exn_text sample_clock
                     (snd (process_pdf options_env ''o.pdf'')))) ''county_options'' = Some (Str X)
          \<and> py_split (CHR '','') X = [''LE'', ''Wakulla'', ''GA''])
   \<and> map (\<lambda>rec. (rec ''township_options'', rec ''range_options'', rec ''county_options''))
        (parse_batch_output (stdout_text sample_exn_text sample_clock
            (snd (process_pdf options_env ''o.pdf''))))
      = [(Some (Str ''1N,2N''), Some (Str ''''), Some (Str ''LE,Wakulla,GA''))]"
proof -
  note t = options_round_trip [OF options_process options_printable sample_quiet(2)]
  have o: "township_options options_result = [''1N'', ''2N'']"
    "county_options options_result = [''LE'', ''Wakulla'', ''GA'']"
    by (simp_all add: options_result_def)
  show ?thesis
    using t options_process options_printable sample_quiet(2) options_survive
      options_console_parse o by simp
qed

end
